theory Spec2Isabelle
  imports Main "HOL-Library.Multiset"
begin

section \<open>The project service of \<^verbatim>\<open>src/api/index.js\<close>\<close>

text \<open>
  The service is one Express application: a JSON body parser, a route that creates a
  project (with an optional image upload handled by multer), and a route that lists the
  projects held in a MongoDB collection through a mongoose model. The embedding follows
  the file top to bottom. What the file itself writes (the schema, the storage
  callbacks, the file filter, the size limit, the two route handlers) is translated
  line by line. What the file only calls (the JavaScript built-ins, Node's
  \<^verbatim>\<open>path.extname\<close>, the middleware of Express and multer, the casting and
  validation of mongoose) is modelled by its documented behaviour, and each such
  definition says so.
\<close>

subsection \<open>JavaScript values\<close>

text \<open>
  The values a parsed JSON text can hold, and \<^verbatim>\<open>undefined\<close>, which reading a
  missing property gives. Numbers are restricted to the integers; an object is the list
  of its properties, and a look-up takes the first entry of a key.
\<close>

datatype jsval =
    Undefined
  | Null
  | Bool bool
  | Num int
  | Str string
  | Arr "jsval list"
  | Obj "(string \<times> jsval) list"

datatype js_error =
    SyntaxError
  | TypeError
  | CastError
  | ValidationError
  | StoreError

text \<open>Sequencing of steps that may throw: the first error ends the sequence.\<close>

definition bindE :: "'e + 'a \<Rightarrow> ('a \<Rightarrow> 'e + 'b) \<Rightarrow> 'e + 'b" where
  "bindE m f = (case m of Inl e \<Rightarrow> Inl e | Inr x \<Rightarrow> f x)"

text \<open>The truth value JavaScript gives a value in \<^verbatim>\<open>!v\<close>, \<^verbatim>\<open>a && b\<close> and \<^verbatim>\<open>a || b\<close>.\<close>

fun truthy :: "jsval \<Rightarrow> bool" where
  "truthy Undefined = False"
| "truthy Null = False"
| "truthy (Bool b) = b"
| "truthy (Num n) = (n \<noteq> 0)"
| "truthy (Str s) = (s \<noteq> [])"
| "truthy (Arr xs) = True"
| "truthy (Obj kvs) = True"

text \<open>
  Property access \<^verbatim>\<open>v.k\<close>, for the keys the create handler reads
  (\<^verbatim>\<open>title\<close>, \<^verbatim>\<open>coverImageUrl\<close>, \<^verbatim>\<open>liveLink\<close>, \<^verbatim>\<open>description\<close>,
  \<^verbatim>\<open>techStack\<close>, \<^verbatim>\<open>price\<close>, \<^verbatim>\<open>details\<close>): on \<^verbatim>\<open>undefined\<close> and
  \<^verbatim>\<open>null\<close> it throws a TypeError, on an object it is the property or
  \<^verbatim>\<open>undefined\<close>, and no other value has a property of one of these names.
\<close>

fun get_prop :: "jsval \<Rightarrow> string \<Rightarrow> js_error + jsval" where
  "get_prop Undefined k = Inl TypeError"
| "get_prop Null k = Inl TypeError"
| "get_prop (Obj kvs) k = Inr (case map_of kvs k of None \<Rightarrow> Undefined | Some v \<Rightarrow> v)"
| "get_prop v k = Inr Undefined"

subsection \<open>Strings: decimal numerals, lower case, search, extension\<close>

text \<open>The decimal numeral JavaScript writes when a non-negative integer is joined to a string.\<close>

definition digit_char :: "nat \<Rightarrow> char" where
  "digit_char d = ''0123456789'' ! d"

fun show_nat :: "nat \<Rightarrow> string" where
  "show_nat n = (if n < 10 then [digit_char n] else show_nat (n div 10) @ [digit_char (n mod 10)])"

declare show_nat.simps [simp del]

definition show_int :: "int \<Rightarrow> string" where
  "show_int i = (if i < 0 then CHR ''-'' # show_nat (nat (- i)) else show_nat (nat i))"

text \<open>\<^verbatim>\<open>String.prototype.toLowerCase\<close> on the ASCII letters; other bytes are kept.\<close>

definition lower_char :: "char \<Rightarrow> char" where
  "lower_char c =
     (let n = (of_char c :: nat) in if 65 \<le> n \<and> n \<le> 90 then char_of (n + 32) else c)"

definition toLowerCase :: "string \<Rightarrow> string" where
  "toLowerCase s = map lower_char s"

text \<open>\<^verbatim>\<open>s.startsWith(p)\<close>.\<close>

definition startsWith :: "string \<Rightarrow> string \<Rightarrow> bool" where
  "startsWith s p = (take (length p) s = p)"

text \<open>Whether \<open>p\<close> occurs somewhere in \<open>s\<close>: what an unanchored literal pattern looks for.\<close>

fun occurs_in :: "string \<Rightarrow> string \<Rightarrow> bool" where
  "occurs_in p [] = (p = [])"
| "occurs_in p (c # cs) = (startsWith (c # cs) p \<or> occurs_in p cs)"

text \<open>
  Node's \<^verbatim>\<open>path.extname\<close> (POSIX): trailing slashes are dropped, the last path
  segment is taken, and the extension runs from its last dot to its end. It is empty
  when the segment has no dot, when its only dot is its first character, and when the
  segment is \<^verbatim>\<open>..\<close>.
\<close>

definition basename_of :: "string \<Rightarrow> string" where
  "basename_of p =
     rev (takeWhile (\<lambda>c. c \<noteq> CHR ''/'') (dropWhile (\<lambda>c. c = CHR ''/'') (rev p)))"

definition extname :: "string \<Rightarrow> string" where
  "extname p =
     (let base = basename_of p;
          ext = rev (takeWhile (\<lambda>c. c \<noteq> CHR ''.'') (rev base));
          stem = rev (drop 1 (dropWhile (\<lambda>c. c \<noteq> CHR ''.'') (rev base)))
      in if CHR ''.'' \<in> set base \<and> stem \<noteq> [] \<and> base \<noteq> ''..'' then CHR ''.'' # ext
         else [])"

subsection \<open>Requests, responses and the state of the service\<close>

text \<open>
  A file part of a multipart body, as multer hands it to the callbacks: the name the
  client gave the file, the media type the client declared, and the length of the
  content in bytes.
\<close>

record file_part =
  originalname :: string
  mimetype :: string
  file_size :: nat

text \<open>\<^verbatim>\<open>req.file\<close> after a stored upload: the part and the name it was stored under.\<close>

record req_file =
  part :: file_part
  filename :: string

text \<open>
  The text field \<^verbatim>\<open>data\<close> of a multipart body, by what \<^verbatim>\<open>JSON.parse\<close> makes
  of it: the field may be absent (\<^verbatim>\<open>JSON.parse(undefined)\<close> throws a SyntaxError), hold
  a text that is not JSON (a SyntaxError again), or hold a JSON text.
\<close>

datatype data_field = NoField | NotJson | Json jsval

fun JSON_parse :: "data_field \<Rightarrow> js_error + jsval" where
  "JSON_parse NoField = Inl SyntaxError"
| "JSON_parse NotJson = Inl SyntaxError"
| "JSON_parse (Json v) = Inr v"

text \<open>
  The body of a request as the reader of the JSON body parser finds it. There may be no
  body at all (neither a \<^verbatim>\<open>transfer-encoding\<close> nor a \<^verbatim>\<open>content-length\<close> header).
  The reader may refuse the body: it is longer than the limit of 100 kB, its content
  encoding or its character set is one the reader cannot decode, or the transfer breaks
  off. Otherwise the reader delivers a text: the empty text, a text that is not JSON, or
  the JSON text of a value.
\<close>

datatype json_body =
    NoBody
  | TooLarge
  | Unsupported
  | Aborted
  | EmptyText
  | NotJsonText
  | JsonText jsval

text \<open>
  The body of a request as multer's parser finds it. A form is well formed and carries
  at most one file part, under the field \<^verbatim>\<open>coverImage\<close>, and the field
  \<^verbatim>\<open>data\<close>. A fault is any other outcome of the parser: an error with its message
  (\<^verbatim>\<open>Multipart: Boundary not found\<close> for a header without a boundary,
  \<^verbatim>\<open>Unexpected field\<close> for a file part under another name or a second file part,
  \<^verbatim>\<open>Unexpected end of form\<close> for a form cut short, \<^verbatim>\<open>Field value too long\<close>,
  the error of a failing write, and so on), together with the file part of the field
  \<^verbatim>\<open>coverImage\<close> that was taken in before the error, if there was one.
\<close>

datatype multipart_body =
    Form "file_part option" data_field
  | Fault "file_part option" string

text \<open>
  A request to the create route: the \<^verbatim>\<open>content-type\<close> header, \<^verbatim>\<open>req.protocol\<close>,
  \<^verbatim>\<open>req.get('host')\<close>, and the body, as the JSON body parser and as multer read it.
  Each request is read by at most one of the two.
\<close>

record request =
  content_type :: "string option"
  protocol :: string
  host :: string
  json_body :: json_body
  multipart :: multipart_body

text \<open>
  The file part of a well-formed form that multer hands to the file filter, and the
  field \<^verbatim>\<open>data\<close> that multer leaves in \<^verbatim>\<open>req.body\<close>.
\<close>

definition cover_image :: "request \<Rightarrow> file_part option" where
  "cover_image req = (case multipart req of Form f d \<Rightarrow> f | Fault f m \<Rightarrow> None)"

definition data :: "request \<Rightarrow> data_field" where
  "data req = (case multipart req of Form f d \<Rightarrow> d | Fault f m \<Rightarrow> NoField)"

text \<open>The Project documents (lines 28 to 38): an absent path is \<open>None\<close>.\<close>

record project =
  oid :: nat
  title :: "string option"
  coverImageUrl :: "string option"
  coverImagePath :: "string option"
  liveLink :: "string option"
  description :: "string option"
  techStack :: "string option list"
  price :: "string option"
  details :: "string option"
  createdAt :: nat

text \<open>
  What persists between requests: whether the database answers, the collection in
  insertion order, whether the directory \<^verbatim>\<open>uploads\<close> exists, and the files in it.
\<close>

record world =
  store_up :: bool
  projects :: "project list"
  uploads_dir :: bool
  disk :: "string \<rightharpoonup> file_part"

text \<open>
  What one create request draws from its environment: \<^verbatim>\<open>Date.now()\<close> when the upload
  is named, \<^verbatim>\<open>Math.round(Math.random() * 1E9)\<close>, \<^verbatim>\<open>Date.now\<close> when the document
  is built, and the identifier the driver gives the document.
\<close>

record draw =
  date_now_upload :: nat
  math_random :: nat
  date_now_create :: nat
  object_id :: nat

datatype response_body =
    Created string project
  | ErrorJson string
  | ErrorPage
  | Projects "project list"
  | Health string

record response =
  status :: nat
  body :: response_body

subsection \<open>The upload configuration (lines 43 to 85)\<close>

datatype error = Error (message: string)

text \<open>Lines 44 to 50: the directory is created when it does not exist.\<close>

definition storage_destination :: "world \<Rightarrow> world" where
  "storage_destination w = (if \<not> uploads_dir w then w\<lparr>uploads_dir := True\<rparr> else w)"

text \<open>Lines 51 to 54.\<close>

definition storage_filename :: "draw \<Rightarrow> file_part \<Rightarrow> string" where
  "storage_filename dr f =
     (let uniqueSuffix = show_nat (date_now_upload dr) @ ''-'' @ show_nat (math_random dr)
      in ''project-'' @ uniqueSuffix @ extname (originalname f))"

text \<open>
  Line 60: \<^verbatim>\<open>/jpeg|jpg|png|gif/.test(s)\<close>. The pattern has no anchor, so the test
  succeeds when one of the four words occurs anywhere in \<open>s\<close>.
\<close>

definition filetypes_test :: "string \<Rightarrow> bool" where
  "filetypes_test s =
     (occurs_in ''jpeg'' s \<or> occurs_in ''jpg'' s \<or> occurs_in ''png'' s \<or> occurs_in ''gif'' s)"

text \<open>Lines 59 to 68: \<open>Inr True\<close> is \<^verbatim>\<open>cb(null, true)\<close>, \<open>Inl e\<close> is \<^verbatim>\<open>cb(e)\<close>.\<close>

definition fileFilter :: "file_part \<Rightarrow> error + bool" where
  "fileFilter f =
     (let mimetype_ok = filetypes_test (mimetype f);
          extname_ok = filetypes_test (toLowerCase (extname (originalname f)))
      in if mimetype_ok \<and> extname_ok then Inr True
         else Inl (Error ''Only image files are allowed (jpeg, jpg, png, gif)''))"

text \<open>Lines 69 to 71.\<close>

definition fileSize :: nat where
  "fileSize = 5 * 1024 * 1024"

text \<open>
  What multer does with one file part of the field \<^verbatim>\<open>coverImage\<close>, by multer's
  documented behaviour. The part goes to the filter first: an error of the filter ends
  the upload before anything is written. An accepted part is given its directory and its
  name by the storage callbacks and is written under that name, replacing a file of the
  same name. A part longer than the limit ends the upload with the error
  \<^verbatim>\<open>File too large\<close>, and multer removes what it had written of it.
\<close>

definition upload_part :: "world \<Rightarrow> draw \<Rightarrow> file_part \<Rightarrow> (error + req_file option) \<times> world" where
  "upload_part w dr f =
     (case fileFilter f of
        Inl e \<Rightarrow> (Inl e, w)
      | Inr accept \<Rightarrow>
          if \<not> accept then (Inr None, w)
          else
            let w1 = storage_destination w;
                name = storage_filename dr f
            in if fileSize < file_size f
               then (Inl (Error ''File too large''), w1\<lparr>disk := (disk w1)(name := None)\<rparr>)
               else (Inr (Some \<lparr>part = f, filename = name\<rparr>),
                     w1\<lparr>disk := (disk w1)(name \<mapsto> f)\<rparr>))"

text \<open>
  Lines 57 to 72: the middleware \<^verbatim>\<open>multer({storage, fileFilter, limits}).single('coverImage')\<close>.
  A form without a file part leaves \<^verbatim>\<open>req.file\<close> undefined; a form with one ends as
  its file part does. A fault ends the upload with its error, unless the file part taken
  in before it had ended the upload already; multer removes the file it had stored.
\<close>

definition upload :: "world \<Rightarrow> draw \<Rightarrow> request \<Rightarrow> (error + req_file option) \<times> world" where
  "upload w dr req =
     (case multipart req of
        Form None d \<Rightarrow> (Inr None, w)
      | Form (Some f) d \<Rightarrow> upload_part w dr f
      | Fault None m \<Rightarrow> (Inl (Error m), w)
      | Fault (Some f) m \<Rightarrow>
          (case upload_part w dr f of
             (Inl e, w1) \<Rightarrow> (Inl e, w1)
           | (Inr None, w1) \<Rightarrow> (Inl (Error m), w1)
           | (Inr (Some rf), w1) \<Rightarrow>
               (Inl (Error m), w1\<lparr>disk := (disk w1)(filename rf := None)\<rparr>)))"

text \<open>Lines 75 to 85: the promise rejects with the error or resolves with \<^verbatim>\<open>req.file\<close>.\<close>

definition handleFileUpload :: "world \<Rightarrow> draw \<Rightarrow> request \<Rightarrow> (error + req_file option) \<times> world" where
  "handleFileUpload w dr req = upload w dr req"

subsection \<open>The Project model (lines 28 to 40)\<close>

text \<open>
  How mongoose casts a value to the schema type \<^verbatim>\<open>String\<close>: \<^verbatim>\<open>undefined\<close> and
  \<^verbatim>\<open>null\<close> stay absent, a string is itself, a number and a boolean become their
  text, an object with a non-empty string \<^verbatim>\<open>_id\<close> becomes that string, and an array
  or any other object is a cast error.
\<close>

fun castString :: "jsval \<Rightarrow> js_error + string option" where
  "castString Undefined = Inr None"
| "castString Null = Inr None"
| "castString (Str s) = Inr (Some s)"
| "castString (Num n) = Inr (Some (show_int n))"
| "castString (Bool b) = Inr (Some (if b then ''true'' else ''false''))"
| "castString (Arr xs) = Inl CastError"
| "castString (Obj kvs) =
     (case map_of kvs ''_id'' of
        Some (Str s) \<Rightarrow> if s \<noteq> [] then Inr (Some s) else Inl CastError
      | _ \<Rightarrow> Inl CastError)"

text \<open>Casting the elements of an array, in order; the first cast error ends it.\<close>

fun castStrings :: "jsval list \<Rightarrow> js_error + string option list" where
  "castStrings [] = Inr []"
| "castStrings (v # vs) =
     bindE (castString v) (\<lambda>x. bindE (castStrings vs) (\<lambda>xs. Inr (x # xs)))"

text \<open>
  The schema type \<^verbatim>\<open>[String]\<close>: an array is cast element by element, and a value
  that is not an array is cast as the array of that one value.
\<close>

fun castArray :: "jsval \<Rightarrow> js_error + string option list" where
  "castArray (Arr vs) = castStrings vs"
| "castArray v = castStrings [v]"

text \<open>
  Lines 118 to 127: the properties of \<open>formData\<close> are read in the order of the object
  literal (\<open>url\<close> and \<open>path\<close> are the variables \<^verbatim>\<open>coverImageUrl\<close> and
  \<^verbatim>\<open>coverImagePath\<close>), then the document is built: each path is cast to its schema type,
  \<^verbatim>\<open>createdAt\<close> takes its default \<^verbatim>\<open>Date.now\<close>. mongoose keeps a cast error in the
  document and raises it when the document is saved; here it is raised at once, which
  the handler cannot tell apart.
\<close>

definition new_Project :: "draw \<Rightarrow> jsval \<Rightarrow> jsval \<Rightarrow> string \<Rightarrow> js_error + project" where
  "new_Project dr formData url path =
     bindE (get_prop formData ''title'') (\<lambda>v_title.
     bindE (get_prop formData ''liveLink'') (\<lambda>v_liveLink.
     bindE (get_prop formData ''description'') (\<lambda>v_description.
     bindE (get_prop formData ''techStack'') (\<lambda>v_techStack.
     bindE (get_prop formData ''price'') (\<lambda>v_price.
     bindE (get_prop formData ''details'') (\<lambda>v_details.
     bindE (castString v_title) (\<lambda>c_title.
     bindE (castString url) (\<lambda>c_coverImageUrl.
     bindE (castString (Str path)) (\<lambda>c_coverImagePath.
     bindE (castString v_liveLink) (\<lambda>c_liveLink.
     bindE (castString v_description) (\<lambda>c_description.
     bindE (castArray (if truthy v_techStack then v_techStack else Arr [])) (\<lambda>c_techStack.
     bindE (castString v_price) (\<lambda>c_price.
     bindE (castString v_details) (\<lambda>c_details.
       Inr \<lparr>oid = object_id dr,
            title = c_title,
            coverImageUrl = c_coverImageUrl,
            coverImagePath = c_coverImagePath,
            liveLink = c_liveLink,
            description = c_description,
            techStack = c_techStack,
            price = c_price,
            details = c_details,
            createdAt = date_now_create dr\<rparr>))))))))))))))"

text \<open>The validator of \<^verbatim>\<open>required: true\<close> on a String path: a string that is not empty.\<close>

definition checkRequired :: "string option \<Rightarrow> bool" where
  "checkRequired v = (case v of None \<Rightarrow> False | Some s \<Rightarrow> s \<noteq> [])"

text \<open>
  \<^verbatim>\<open>project.save()\<close> (line 129): the document is validated against the schema, where
  \<^verbatim>\<open>title\<close>, \<^verbatim>\<open>description\<close> and \<^verbatim>\<open>details\<close> are required, and is then added to
  the collection, which fails when the database does not answer.
\<close>

definition save :: "world \<Rightarrow> project \<Rightarrow> js_error + world" where
  "save w p =
     (if \<not> (checkRequired (title p) \<and> checkRequired (description p) \<and> checkRequired (details p))
      then Inl ValidationError
      else if \<not> store_up w then Inl StoreError
      else Inr (w\<lparr>projects := projects w @ [p]\<rparr>))"

subsection \<open>The create route (line 16 and lines 88 to 139)\<close>

text \<open>Lines 94 and 108: \<^verbatim>\<open>req.headers['content-type']?.startsWith('multipart/form-data')\<close>.\<close>

definition is_multipart :: "request \<Rightarrow> bool" where
  "is_multipart req =
     (case content_type req of None \<Rightarrow> False | Some ct \<Rightarrow> startsWith ct ''multipart/form-data'')"

text \<open>
  The parameters of a \<^verbatim>\<open>Content-Type\<close> header, as the parser of the body parser
  reads them (type-is with media-typer, as Express 4 ships them): after the media
  type, each parameter is a semicolon, a name, an equals sign and a value, with spaces
  allowed around each; a name is a token, a value a token or a quoted string, in which
  a backslash quotes the next character. The scan takes the header from its first
  semicolon on and gives the parameters, the latest first and the names in lower case,
  or nothing when the header does not have this form.
\<close>

definition token_char :: "char \<Rightarrow> bool" where
  "token_char c =
     (let n = (of_char c :: nat)
      in (48 \<le> n \<and> n \<le> 57) \<or> (65 \<le> n \<and> n \<le> 90) \<or> (94 \<le> n \<and> n \<le> 122)
         \<or> n = 33 \<or> (35 \<le> n \<and> n \<le> 39) \<or> n = 42 \<or> n = 43 \<or> n = 45 \<or> n = 46
         \<or> n = 124 \<or> n = 126)"

definition quoted_char :: "char \<Rightarrow> bool" where
  "quoted_char c =
     (let n = (of_char c :: nat)
      in n = 32 \<or> n = 33 \<or> (35 \<le> n \<and> n \<le> 91) \<or> (93 \<le> n \<and> n \<le> 126) \<or> 128 \<le> n)"

definition escaped_char :: "char \<Rightarrow> bool" where
  "escaped_char c = (let n = (of_char c :: nat) in 32 \<le> n \<and> n \<le> 126)"

datatype scan_state =
    Start
  | BeforeName
  | InName string
  | AfterName string
  | BeforeValue string
  | InToken string string
  | InQuoted string string
  | Escaped string string
  | AfterValue

fun scan :: "scan_state \<Rightarrow> (string \<times> string) list \<Rightarrow> string \<Rightarrow> (string \<times> string) list option" where
  "scan Start ps [] = Some ps"
| "scan AfterValue ps [] = Some ps"
| "scan (InToken k v) ps [] = Some ((toLowerCase k, v) # ps)"
| "scan st ps [] = None"
| "scan Start ps (c # cs) = (if c = CHR '';'' then scan BeforeName ps cs else None)"
| "scan BeforeName ps (c # cs) =
     (if c = CHR '' '' then scan BeforeName ps cs
      else if token_char c then scan (InName [c]) ps cs
      else None)"
| "scan (InName k) ps (c # cs) =
     (if token_char c then scan (InName (k @ [c])) ps cs
      else if c = CHR '' '' then scan (AfterName k) ps cs
      else if c = CHR ''='' then scan (BeforeValue k) ps cs
      else None)"
| "scan (AfterName k) ps (c # cs) =
     (if c = CHR '' '' then scan (AfterName k) ps cs
      else if c = CHR ''='' then scan (BeforeValue k) ps cs
      else None)"
| "scan (BeforeValue k) ps (c # cs) =
     (if c = CHR '' '' then scan (BeforeValue k) ps cs
      else if c = CHR 0x22 then scan (InQuoted k []) ps cs
      else if token_char c then scan (InToken k [c]) ps cs
      else None)"
| "scan (InToken k v) ps (c # cs) =
     (if token_char c then scan (InToken k (v @ [c])) ps cs
      else if c = CHR '' '' then scan AfterValue ((toLowerCase k, v) # ps) cs
      else if c = CHR '';'' then scan BeforeName ((toLowerCase k, v) # ps) cs
      else None)"
| "scan (InQuoted k v) ps (c # cs) =
     (if c = CHR 0x22 then scan AfterValue ((toLowerCase k, v) # ps) cs
      else if c = CHR 0x5C then scan (Escaped k v) ps cs
      else if quoted_char c then scan (InQuoted k (v @ [c])) ps cs
      else None)"
| "scan (Escaped k v) ps (c # cs) =
     (if escaped_char c then scan (InQuoted k (v @ [c])) ps cs else None)"
| "scan AfterValue ps (c # cs) =
     (if c = CHR '' '' then scan AfterValue ps cs
      else if c = CHR '';'' then scan BeforeName ps cs
      else None)"

definition parameters :: "string \<Rightarrow> (string \<times> string) list option" where
  "parameters ct = scan Start [] (dropWhile (\<lambda>c. c \<noteq> CHR '';'') ct)"

text \<open>The media type of a header: the text before the first semicolon, without the spaces around it.\<close>

definition strip :: "string \<Rightarrow> string" where
  "strip s = rev (dropWhile (\<lambda>c. c = CHR '' '') (rev (dropWhile (\<lambda>c. c = CHR '' '') s)))"

definition media_type :: "string \<Rightarrow> string" where
  "media_type ct = toLowerCase (strip (takeWhile (\<lambda>c. c \<noteq> CHR '';'') ct))"

text \<open>
  Whether the body parser takes a request for JSON: the header is of the form above and
  its media type is \<^verbatim>\<open>application/json\<close>.
\<close>

definition is_json_type :: "string option \<Rightarrow> bool" where
  "is_json_type h =
     (case h of
        None \<Rightarrow> False
      | Some ct \<Rightarrow> media_type ct = ''application/json'' \<and> parameters ct \<noteq> None)"

text \<open>
  The character set the body parser reads the body in: the parameter \<^verbatim>\<open>charset\<close> of
  the header in lower case, \<^verbatim>\<open>utf-8\<close> when there is none. The parser goes on only
  when the name of the character set begins with \<^verbatim>\<open>utf-\<close>.
\<close>

definition charset :: "string option \<Rightarrow> string" where
  "charset h =
     (case h of
        None \<Rightarrow> ''utf-8''
      | Some ct \<Rightarrow>
          (case parameters ct of
             None \<Rightarrow> ''utf-8''
           | Some ps \<Rightarrow>
               (case map_of ps ''charset'' of
                  None \<Rightarrow> ''utf-8''
                | Some v \<Rightarrow> if v = [] then ''utf-8'' else toLowerCase v)))"

fun strict_json :: "jsval \<Rightarrow> bool" where
  "strict_json (Arr xs) = True"
| "strict_json (Obj kvs) = True"
| "strict_json v = False"

text \<open>
  What the parser makes of the body it reads. A body the reader refuses is answered
  with the reader's status: 413 for a body over the limit, 415 for an encoding or
  character set it cannot decode, 400 for a transfer that breaks off. The empty text
  gives the empty object. Any other text must be the JSON text of an object or an array
  (the parser is strict) and gives that value; a text that is not is answered with 400.
\<close>

fun read_json :: "json_body \<Rightarrow> nat + jsval" where
  "read_json NoBody = Inr (Obj [])"
| "read_json TooLarge = Inl 413"
| "read_json Unsupported = Inl 415"
| "read_json Aborted = Inl 400"
| "read_json EmptyText = Inr (Obj [])"
| "read_json NotJsonText = Inl 400"
| "read_json (JsonText v) = (if strict_json v then Inr v else Inl 400)"

text \<open>
  Line 16, \<^verbatim>\<open>express.json()\<close>, by its documented behaviour. The parser sets
  \<^verbatim>\<open>req.body\<close> to the empty object and leaves a request alone that has no body or
  that it does not take for JSON. A request for JSON in a character set whose name does
  not begin with \<^verbatim>\<open>utf-\<close> is answered with 415. Otherwise the body is read and
  parsed. When the parser refuses a request it passes an error of that status on, the
  route does not run, and Express answers with its own error page.
\<close>

definition express_json :: "request \<Rightarrow> nat + jsval" where
  "express_json req =
     (if json_body req = NoBody then Inr (Obj [])
      else if \<not> is_json_type (content_type req) then Inr (Obj [])
      else if \<not> startsWith (charset (content_type req)) ''utf-'' then Inl 415
      else read_json (json_body req))"

text \<open>
  Lines 107 to 129, the part of the handler after the upload: \<open>req_body\<close> is
  \<^verbatim>\<open>req.body\<close>, and \<open>url\<close> and \<open>path\<close> are the variables \<^verbatim>\<open>coverImageUrl\<close> and
  \<^verbatim>\<open>coverImagePath\<close> as the upload left them. An error is whatever the outer
  \<^verbatim>\<open>catch\<close> receives.
\<close>

definition create_project ::
  "world \<Rightarrow> draw \<Rightarrow> request \<Rightarrow> jsval \<Rightarrow> string \<Rightarrow> string \<Rightarrow> js_error + project \<times> world" where
  "create_project w dr req req_body url path =
     bindE (if is_multipart req then JSON_parse (data req) else Inr req_body) (\<lambda>formData.
     bindE (if \<not> truthy (Str url)
            then bindE (get_prop formData ''coverImageUrl'')
                   (\<lambda>u. Inr (if truthy u then u else Str url))
            else Inr (Str url)) (\<lambda>url'.
     bindE (new_Project dr formData url' path) (\<lambda>p.
     bindE (save w p) (\<lambda>w'. Inr (p, w')))))"

text \<open>
  Lines 90 to 92 and 98 to 101: the variables \<^verbatim>\<open>coverImagePath\<close> and
  \<^verbatim>\<open>coverImageUrl\<close> after the upload; both stay empty when there is no file.
\<close>

definition cover_path :: "req_file option \<Rightarrow> string" where
  "cover_path uploaded = (case uploaded of None \<Rightarrow> [] | Some f \<Rightarrow> ''/uploads/'' @ filename f)"

definition cover_url :: "request \<Rightarrow> req_file option \<Rightarrow> string" where
  "cover_url req uploaded =
     (case uploaded of
        None \<Rightarrow> []
      | Some f \<Rightarrow> protocol req @ ''://'' @ host req @ cover_path uploaded)"

text \<open>Lines 94 to 97: the upload runs only for a multipart request.\<close>

definition upload_step :: "world \<Rightarrow> draw \<Rightarrow> request \<Rightarrow> (error + req_file option) \<times> world" where
  "upload_step w dr req = (if is_multipart req then handleFileUpload w dr req else (Inr None, w))"

text \<open>Lines 88 to 139.\<close>

definition create_handler :: "world \<Rightarrow> draw \<Rightarrow> request \<Rightarrow> jsval \<Rightarrow> response \<times> world" where
  "create_handler w dr req req_body =
     (case upload_step w dr req of
        (Inl fileError, w1) \<Rightarrow> (\<lparr>status = 400, body = ErrorJson (message fileError)\<rparr>, w1)
      | (Inr uploaded, w1) \<Rightarrow>
          (case create_project w1 dr req req_body (cover_url req uploaded) (cover_path uploaded) of
             Inl err \<Rightarrow> (\<lparr>status = 500, body = ErrorJson ''Internal server error''\<rparr>, w1)
           | Inr (p, w2) \<Rightarrow>
               (\<lparr>status = 201, body = Created ''Project created successfully'' p\<rparr>, w2)))"

text \<open>The route behind the body parser.\<close>

definition post_create :: "world \<Rightarrow> draw \<Rightarrow> request \<Rightarrow> response \<times> world" where
  "post_create w dr req =
     (case express_json req of
        Inl st \<Rightarrow> (\<lparr>status = st, body = ErrorPage\<rparr>, w)
      | Inr req_body \<Rightarrow> create_handler w dr req req_body)"

subsection \<open>The list route (lines 142 to 149) and the health check (lines 152 to 154)\<close>

text \<open>\<^verbatim>\<open>Project.find().sort({createdAt: -1})\<close>: every document, the latest first.\<close>

definition find_sorted :: "project list \<Rightarrow> project list" where
  "find_sorted ps = sort_key (\<lambda>p. - int (createdAt p)) ps"

definition get_projects :: "world \<Rightarrow> response" where
  "get_projects w =
     (if store_up w then \<lparr>status = 200, body = Projects (find_sorted (projects w))\<rparr>
      else \<lparr>status = 500, body = ErrorJson ''Internal server error''\<rparr>)"

definition get_health :: response where
  "get_health = \<lparr>status = 200, body = Health ''OK''\<rparr>"

subsection \<open>Runs of the service\<close>

text \<open>The create requests served one after the other, each with its own draws.\<close>

fun serve :: "world \<Rightarrow> (draw \<times> request) list \<Rightarrow> response list \<times> world" where
  "serve w [] = ([], w)"
| "serve w ((dr, req) # rest) =
     (let (r, w1) = post_create w dr req;
          (rs, w2) = serve w1 rest
      in (r # rs, w2))"

subsection \<open>Notions the properties are stated with\<close>

text \<open>The value of a field of the form data, \<^verbatim>\<open>undefined\<close> when it cannot be read.\<close>

definition field :: "jsval \<Rightarrow> string \<Rightarrow> jsval" where
  "field v k = (case get_prop v k of Inl e \<Rightarrow> Undefined | Inr x \<Rightarrow> x)"

text \<open>
  The form data of a request, as line 108 takes it: the parsed \<^verbatim>\<open>data\<close> field of a
  multipart request, the parsed body of any other; \<^verbatim>\<open>undefined\<close> when there is none.
\<close>

definition form_fields :: "request \<Rightarrow> jsval" where
  "form_fields req =
     (if is_multipart req then (case JSON_parse (data req) of Inl e \<Rightarrow> Undefined | Inr v \<Rightarrow> v)
      else (case express_json req of Inl st \<Rightarrow> Undefined | Inr b \<Rightarrow> b))"

text \<open>The body parser refuses the request; the upload of the request ends in an error.\<close>

definition body_rejected :: "request \<Rightarrow> bool" where
  "body_rejected req = isl (express_json req)"

definition upload_rejected :: "world \<Rightarrow> draw \<Rightarrow> request \<Rightarrow> bool" where
  "upload_rejected w dr req = isl (fst (upload_step w dr req))"

text \<open>The answer of the outer \<^verbatim>\<open>catch\<close> (line 137) and of the list route (line 147).\<close>

definition generic_500 :: response where
  "generic_500 = \<lparr>status = 500, body = ErrorJson ''Internal server error''\<rparr>"

text \<open>
  The types of the data model: a text; an optional text (absent, \<^verbatim>\<open>null\<close> or a
  text); an optional sequence of texts.
\<close>

fun is_text :: "jsval \<Rightarrow> bool" where
  "is_text (Str s) = True"
| "is_text v = False"

fun optional_text :: "jsval \<Rightarrow> bool" where
  "optional_text Undefined = True"
| "optional_text Null = True"
| "optional_text (Str s) = True"
| "optional_text v = False"

fun optional_tags :: "jsval \<Rightarrow> bool" where
  "optional_tags Undefined = True"
| "optional_tags Null = True"
| "optional_tags (Arr vs) = list_all is_text vs"
| "optional_tags v = False"

text \<open>Every field that is not required has the type the data model gives it.\<close>

definition well_typed :: "jsval \<Rightarrow> bool" where
  "well_typed fd =
     (optional_text (field fd ''coverImageUrl'') \<and> optional_text (field fd ''liveLink'')
      \<and> optional_text (field fd ''price'') \<and> optional_tags (field fd ''techStack''))"

text \<open>A required field is missing or empty: absent, \<^verbatim>\<open>null\<close> or the empty text.\<close>

fun missing_or_empty :: "jsval \<Rightarrow> bool" where
  "missing_or_empty Undefined = True"
| "missing_or_empty Null = True"
| "missing_or_empty (Str s) = (s = [])"
| "missing_or_empty v = False"

definition some_required_missing :: "jsval \<Rightarrow> bool" where
  "some_required_missing fd =
     (missing_or_empty (field fd ''title'') \<or> missing_or_empty (field fd ''description'')
      \<or> missing_or_empty (field fd ''details''))"

text \<open>A document with a non-empty title, description and details.\<close>

definition complete :: "project \<Rightarrow> bool" where
  "complete p =
     (title p \<notin> {None, Some []} \<and> description p \<notin> {None, Some []} \<and> details p \<notin> {None, Some []})"

text \<open>
  A media type and a file name that are on the list of the error message of line 67:
  the media type is one of the four image types, the extension is, in lower case, one of
  the four extensions.
\<close>

definition listed_media_type :: "string \<Rightarrow> bool" where
  "listed_media_type m = (m \<in> {''image/jpeg'', ''image/jpg'', ''image/png'', ''image/gif''})"

definition listed_extension :: "string \<Rightarrow> bool" where
  "listed_extension name =
     (toLowerCase (extname name) \<in> {''.jpeg'', ''.jpg'', ''.png'', ''.gif''})"

text \<open>
  A client that sends one more field: the property \<open>k\<close> is set to \<open>v\<close> in the form data
  of the request, in the JSON body and in the \<^verbatim>\<open>data\<close> field alike.
\<close>

definition put_field :: "string \<Rightarrow> jsval \<Rightarrow> jsval \<Rightarrow> jsval" where
  "put_field k v fd = (case fd of Obj kvs \<Rightarrow> Obj ((k, v) # kvs) | _ \<Rightarrow> fd)"

definition put_in_request :: "string \<Rightarrow> jsval \<Rightarrow> request \<Rightarrow> request" where
  "put_in_request k v req =
     req\<lparr>json_body :=
           (case json_body req of JsonText fd \<Rightarrow> JsonText (put_field k v fd) | b \<Rightarrow> b),
         multipart :=
           (case multipart req of
              Form f (Json fd) \<Rightarrow> Form f (Json (put_field k v fd))
            | m \<Rightarrow> m)\<rparr>"

subsection \<open>Example requests\<close>

definition world0 :: world where
  "world0 = \<lparr>store_up = True, projects = [], uploads_dir = False, disk = Map.empty\<rparr>"

definition draw0 :: draw where
  "draw0 = \<lparr>date_now_upload = 1700000000123, math_random = 123456789,
             date_now_create = 1700000000125, object_id = 1\<rparr>"

definition draw1 :: draw where
  "draw1 = \<lparr>date_now_upload = 1700000000456, math_random = 987654321,
             date_now_create = 1700000000460, object_id = 2\<rparr>"

text \<open>The fields of the example of the specification.\<close>

definition fields_A :: jsval where
  "fields_A = Obj [(''title'', Str ''A''), (''description'', Str ''d''), (''details'', Str ''x'')]"

text \<open>A JSON request whose body is the text of a value, or is not JSON; a multipart request.\<close>

definition json_request :: "jsval option \<Rightarrow> request" where
  "json_request t =
     \<lparr>content_type = Some ''application/json'', protocol = ''http'', host = ''localhost:5000'',
      json_body = (case t of None \<Rightarrow> NotJsonText | Some v \<Rightarrow> JsonText v),
      multipart = Form None NoField\<rparr>"

definition multipart_request :: "file_part option \<Rightarrow> data_field \<Rightarrow> request" where
  "multipart_request f d =
     \<lparr>content_type = Some ''multipart/form-data; boundary=x'', protocol = ''http'',
      host = ''localhost:5000'', json_body = NotJsonText, multipart = Form f d\<rparr>"

text \<open>
  The JSON request without a title, sent in Latin-1 and sent with an empty body; a
  multipart request whose header names no boundary.
\<close>

definition latin1_request :: request where
  "latin1_request =
     (json_request (Some (Obj [(''description'', Str ''d''), (''details'', Str ''x'')])))
       \<lparr>content_type := Some ''application/json; charset=latin1''\<rparr>"

definition empty_request :: request where
  "empty_request = (json_request None)\<lparr>json_body := EmptyText\<rparr>"

definition no_boundary_request :: request where
  "no_boundary_request =
     \<lparr>content_type = Some ''multipart/form-data'', protocol = ''http'',
      host = ''localhost:5000'', json_body = NotJsonText,
      multipart = Fault None ''Multipart: Boundary not found''\<rparr>"

definition png_file :: file_part where
  "png_file = \<lparr>originalname = ''cover.png'', mimetype = ''image/png'', file_size = 2048\<rparr>"

definition txt_file :: file_part where
  "txt_file = \<lparr>originalname = ''notes.txt'', mimetype = ''text/plain'', file_size = 10\<rparr>"

definition big_file :: file_part where
  "big_file =
     \<lparr>originalname = ''big.png'', mimetype = ''image/png'', file_size = 5 * 1024 * 1024 + 1\<rparr>"

definition pngx_file :: file_part where
  "pngx_file = \<lparr>originalname = ''report.pngx'', mimetype = ''image/png'', file_size = 2048\<rparr>"

definition other_png :: file_part where
  "other_png = \<lparr>originalname = ''logo.png'', mimetype = ''image/png'', file_size = 512\<rparr>"

text \<open>Fields with an external image URL, with a price that is no text, and without a title.\<close>

definition fields_url :: jsval where
  "fields_url = Obj [(''title'', Str ''A''), (''description'', Str ''d''), (''details'', Str ''x''),
                     (''coverImageUrl'', Str ''https://example.org/a.png'')]"

definition fields_bad_price :: jsval where
  "fields_bad_price = Obj [(''title'', Str ''A''), (''description'', Str ''d''), (''details'', Str ''x''),
                     (''price'', Obj [])]"

definition fields_no_title :: jsval where
  "fields_no_title = Obj [(''description'', Str ''d''), (''details'', Str ''x'')]"

definition three_requests :: "(draw \<times> request) list" where
  "three_requests =
     [(draw0, json_request (Some fields_A)),
      (draw0, json_request (Some fields_no_title)),
      (draw1, json_request (Some fields_url))]"

section \<open>Basic facts\<close>

subsection \<open>Evaluation on concrete inputs\<close>

lemma show_nat_numeral:
  "show_nat (numeral k) =
     (if (numeral k :: nat) < 10 then [digit_char (numeral k)]
      else show_nat (numeral k div 10) @ [digit_char (numeral k mod 10)])"
  by (subst show_nat.simps) simp

lemma show_nat_small: "show_nat 0 = ''0''" "show_nat (Suc 0) = ''1''"
  by (simp_all add: show_nat.simps digit_char_def)

lemmas eval_defs =
  post_create_def express_json_def is_json_type_def media_type_def strip_def parameters_def
  charset_def token_char_def quoted_char_def escaped_char_def cover_image_def data_def
  upload_part_def latin1_request_def empty_request_def no_boundary_request_def
  toLowerCase_def lower_char_def
  create_handler_def upload_step_def is_multipart_def startsWith_def handleFileUpload_def
  upload_def fileFilter_def filetypes_test_def extname_def basename_of_def create_project_def
  bindE_def new_Project_def save_def checkRequired_def storage_destination_def
  storage_filename_def fileSize_def show_nat_numeral show_nat_small digit_char_def
  show_int_def Let_def cover_path_def cover_url_def field_def form_fields_def
  body_rejected_def upload_rejected_def generic_500_def well_typed_def
  some_required_missing_def complete_def listed_media_type_def listed_extension_def
  put_field_def put_in_request_def get_projects_def find_sorted_def
  world0_def draw0_def draw1_def fields_A_def fields_url_def fields_bad_price_def
  fields_no_title_def json_request_def multipart_request_def three_requests_def
  png_file_def other_png_def txt_file_def big_file_def pngx_file_def

subsection \<open>Decimal numerals and extensions\<close>

lemma show_nat_lt10: "n < 10 \<Longrightarrow> show_nat n = [digit_char n]"
  by (subst show_nat.simps) simp

lemma show_nat_ge10:
  "\<not> n < 10 \<Longrightarrow> show_nat n = show_nat (n div 10) @ [digit_char (n mod 10)]"
  by (subst show_nat.simps) simp

lemma show_nat_nonempty: "show_nat n \<noteq> []"
  by (cases "n < 10") (simp_all add: show_nat_lt10 show_nat_ge10)

lemma length_show_nat: "length (show_nat n) = 1 \<longleftrightarrow> n < 10"
proof (cases "n < 10")
  case True
  then show ?thesis by (simp add: show_nat_lt10)
next
  case False
  have "length (show_nat (n div 10)) \<noteq> 0" using show_nat_nonempty by simp
  then show ?thesis using False by (simp add: show_nat_ge10)
qed

lemma digit_char_digit: "d < 10 \<Longrightarrow> digit_char d \<in> set ''0123456789''"
  unfolding digit_char_def by (rule nth_mem) simp

lemma digit_char_inj:
  assumes "d < 10" and "e < 10" and "digit_char d = digit_char e"
  shows "d = e"
proof -
  have "distinct ''0123456789''" by simp
  then show ?thesis
    using assms nth_eq_iff_index_eq [of "''0123456789''" d e] by (simp add: digit_char_def)
qed

lemma show_nat_digits: "set (show_nat n) \<subseteq> set ''0123456789''"
proof (induction n rule: show_nat.induct)
  case (1 n)
  show ?case
  proof (cases "n < 10")
    case True
    then show ?thesis using digit_char_digit [OF True] by (simp add: show_nat_lt10)
  next
    case False
    then have e: "show_nat n = show_nat (n div 10) @ [digit_char (n mod 10)]"
      by (rule show_nat_ge10)
    have "n mod 10 < 10" by simp
    then have "digit_char (n mod 10) \<in> set ''0123456789''" by (rule digit_char_digit)
    then show ?thesis using "1.IH" [OF False] unfolding e by simp
  qed
qed

lemma show_nat_inj: "show_nat n = show_nat m \<Longrightarrow> n = m"
proof (induction n arbitrary: m rule: show_nat.induct)
  case (1 n)
  have len: "length (show_nat n) = length (show_nat m)"
    using "1.prems" by (rule arg_cong)
  show ?case
  proof (cases "n < 10")
    case True
    then have m: "m < 10" using len length_show_nat [of n] length_show_nat [of m] by simp
    have "[digit_char n] = [digit_char m]"
      using "1.prems" unfolding show_nat_lt10 [OF True] show_nat_lt10 [OF m] .
    then have "digit_char n = digit_char m" by simp
    then show ?thesis by (rule digit_char_inj [OF True m])
  next
    case False
    then have m: "\<not> m < 10" using len length_show_nat [of n] length_show_nat [of m] by simp
    have "show_nat (n div 10) @ [digit_char (n mod 10)]
            = show_nat (m div 10) @ [digit_char (m mod 10)]"
      using "1.prems" unfolding show_nat_ge10 [OF False] show_nat_ge10 [OF m] .
    then have a: "show_nat (n div 10) = show_nat (m div 10)"
      and b: "digit_char (n mod 10) = digit_char (m mod 10)"
      by simp_all
    have "n div 10 = m div 10" using "1.IH" [OF False a] .
    moreover have "n mod 10 = m mod 10" using digit_char_inj [OF _ _ b] by simp
    ultimately show ?thesis by (metis div_mult_mod_eq)
  qed
qed

lemma extname_shape: "extname p = [] \<or> (\<exists>e. extname p = CHR ''.'' # e)"
  by (simp add: extname_def Let_def)

lemma split_at_mark:
  assumes "xs @ c # ys = xs' @ c # ys'" and "c \<notin> set xs" and "c \<notin> set xs'"
  shows "xs = xs' \<and> ys = ys'"
proof -
  have "takeWhile (\<lambda>x. x \<noteq> c) (xs @ c # ys) = xs" using assms(2)
    by (auto simp: takeWhile_tail)
  moreover have "takeWhile (\<lambda>x. x \<noteq> c) (xs' @ c # ys') = xs'" using assms(3)
    by (auto simp: takeWhile_tail)
  ultimately have "xs = xs'" using assms(1) by simp
  then show ?thesis using assms(1) by simp
qed

lemma digits_then_rest:
  assumes "xs @ e = xs' @ e'"
    and "set xs \<subseteq> D" and "set xs' \<subseteq> D"
    and "e = [] \<or> (\<exists>r. e = c # r)" and "e' = [] \<or> (\<exists>r. e' = c # r)" and "c \<notin> D"
  shows "xs = xs' \<and> e = e'"
proof -
  have "takeWhile (\<lambda>x. x \<in> D) (xs @ e) = xs"
    using assms(2,4,6) by (auto simp: takeWhile_append2 subset_iff)
  moreover have "takeWhile (\<lambda>x. x \<in> D) (xs' @ e') = xs'"
    using assms(3,5,6) by (auto simp: takeWhile_append2 subset_iff)
  ultimately have "xs = xs'" using assms(1) by simp
  then show ?thesis using assms(1) by simp
qed

lemma storage_filename_inj:
  "storage_filename d1 f1 = storage_filename d2 f2 \<longleftrightarrow>
     date_now_upload d1 = date_now_upload d2 \<and> math_random d1 = math_random d2
     \<and> extname (originalname f1) = extname (originalname f2)"
proof
  assume eq: "storage_filename d1 f1 = storage_filename d2 f2"
  have nd: "CHR ''-'' \<notin> set (show_nat n)" for n using show_nat_digits [of n] by auto
  from eq have "show_nat (date_now_upload d1) @ CHR ''-'' # (show_nat (math_random d1) @ extname (originalname f1))
      = show_nat (date_now_upload d2) @ CHR ''-'' # (show_nat (math_random d2) @ extname (originalname f2))"
    by (simp add: storage_filename_def)
  from split_at_mark [OF this nd nd]
  have t: "show_nat (date_now_upload d1) = show_nat (date_now_upload d2)"
    and rest: "show_nat (math_random d1) @ extname (originalname f1)
             = show_nat (math_random d2) @ extname (originalname f2)"
    by simp_all
  have "CHR ''.'' \<notin> set ''0123456789''" by simp
  from digits_then_rest [OF rest show_nat_digits show_nat_digits extname_shape extname_shape this]
  have r: "show_nat (math_random d1) = show_nat (math_random d2)"
    and e: "extname (originalname f1) = extname (originalname f2)" by simp_all
  show "date_now_upload d1 = date_now_upload d2 \<and> math_random d1 = math_random d2
     \<and> extname (originalname f1) = extname (originalname f2)"
    using show_nat_inj [OF t] show_nat_inj [OF r] e by simp
next
  assume "date_now_upload d1 = date_now_upload d2 \<and> math_random d1 = math_random d2
     \<and> extname (originalname f1) = extname (originalname f2)"
  then show "storage_filename d1 f1 = storage_filename d2 f2"
    by (simp add: storage_filename_def)
qed

subsection \<open>The steps of the create route\<close>

lemma bindE_Inr: "bindE m f = Inr y \<longleftrightarrow> (\<exists>x. m = Inr x \<and> f x = Inr y)"
  by (cases m) (simp_all add: bindE_def)

lemma bindE_simps: "bindE (Inr x) f = f x" "bindE (Inl e) f = Inl e"
  by (simp_all add: bindE_def)

lemma get_prop_field: "get_prop v k = Inr x \<Longrightarrow> x = field v k"
  by (simp add: field_def)

lemma dropWhile_keeps_last: "\<not> P x \<Longrightarrow> \<exists>ys. dropWhile P (zs @ [x]) = ys @ [x]"
  by (induction zs) auto

lemma strip_keeps_head:
  assumes "c \<noteq> CHR '' ''"
  shows "\<exists>ys. strip (c # cs) = c # ys"
proof -
  have "dropWhile (\<lambda>c. c = CHR '' '') (c # cs) = c # cs" using assms by simp
  moreover obtain ys where "dropWhile (\<lambda>c. c = CHR '' '') (rev cs @ [c]) = ys @ [c]"
    using dropWhile_keeps_last [of "\<lambda>c. c = CHR '' ''" c "rev cs"] assms by blast
  ultimately show ?thesis by (simp add: strip_def)
qed

lemma multipart_not_json: "is_multipart req \<Longrightarrow> \<not> is_json_type (content_type req)"
proof -
  assume "is_multipart req"
  then obtain ct where ct: "content_type req = Some ct"
    and sw: "startsWith ct ''multipart/form-data''"
    by (auto simp: is_multipart_def split: option.splits)
  from sw obtain cs where "ct = CHR ''m'' # cs"
    by (cases ct) (auto simp: startsWith_def)
  then obtain ys where "strip (takeWhile (\<lambda>c. c \<noteq> CHR '';'') ct) = CHR ''m'' # ys"
    using strip_keeps_head [of "CHR ''m''"] by auto
  then have "media_type ct \<noteq> ''application/json''"
    by (simp add: media_type_def toLowerCase_def lower_char_def)
  then show ?thesis using ct by (simp add: is_json_type_def)
qed

lemma express_json_multipart: "is_multipart req \<Longrightarrow> express_json req = Inr (Obj [])"
  by (simp add: express_json_def multipart_not_json)

lemma read_json_status: "read_json b = Inl st \<Longrightarrow> st = 400 \<or> st = 413 \<or> st = 415"
  by (cases b) (auto split: if_splits)

lemma express_json_status: "express_json req = Inl st \<Longrightarrow> st = 400 \<or> st = 413 \<or> st = 415"
  using read_json_status by (auto simp: express_json_def split: if_splits)

lemma upload_part_cases:
  "upload_part w dr f =
     (if \<not> (filetypes_test (mimetype f)
            \<and> filetypes_test (toLowerCase (extname (originalname f))))
      then (Inl (Error ''Only image files are allowed (jpeg, jpg, png, gif)''), w)
      else if fileSize < file_size f
      then (Inl (Error ''File too large''),
            (storage_destination w)
              \<lparr>disk := (disk (storage_destination w))(storage_filename dr f := None)\<rparr>)
      else (Inr (Some \<lparr>part = f, filename = storage_filename dr f\<rparr>),
            (storage_destination w)
              \<lparr>disk := (disk (storage_destination w))(storage_filename dr f \<mapsto> f)\<rparr>))"
  by (simp add: upload_part_def fileFilter_def Let_def)

lemma upload_part_keeps_store:
  "projects (snd (upload_part w dr f)) = projects w"
  "store_up (snd (upload_part w dr f)) = store_up w"
  by (simp_all add: upload_part_cases storage_destination_def)

lemma upload_cover_image:
  "cover_image req = Some f \<Longrightarrow> upload w dr req = upload_part w dr f"
  by (auto simp: cover_image_def upload_def split: multipart_body.splits)

lemma upload_no_cover_image:
  "cover_image req = None \<Longrightarrow> fst (upload w dr req) \<noteq> Inr (Some rf)"
  by (auto simp: cover_image_def upload_def split: multipart_body.splits option.splits
        prod.splits sum.splits)

lemma upload_keeps_store:
  "projects (snd (upload w dr req)) = projects w"
  "store_up (snd (upload w dr req)) = store_up w"
proof -
  have "projects (snd (upload w dr req)) = projects w \<and> store_up (snd (upload w dr req)) = store_up w"
  proof (cases "multipart req")
    case (Form fo d)
    then show ?thesis
      by (cases fo) (simp_all add: upload_def upload_part_keeps_store)
  next
    case (Fault fo m)
    show ?thesis
    proof (cases fo)
      case None
      then show ?thesis using Fault by (simp add: upload_def)
    next
      case (Some f)
      obtain res w1 where u: "upload_part w dr f = (res, w1)" by (cases "upload_part w dr f")
      then have "projects w1 = projects w" "store_up w1 = store_up w"
        using upload_part_keeps_store [of w dr f] by simp_all
      then show ?thesis using Fault Some u
        by (auto simp: upload_def split: sum.splits option.splits)
    qed
  qed
  then show "projects (snd (upload w dr req)) = projects w"
    and "store_up (snd (upload w dr req)) = store_up w" by simp_all
qed

lemma upload_step_keeps_store:
  "projects (snd (upload_step w dr req)) = projects w"
  "store_up (snd (upload_step w dr req)) = store_up w"
  by (simp_all add: upload_step_def handleFileUpload_def upload_keeps_store)

lemma upload_accepted:
  assumes "handleFileUpload w dr req = (Inr (Some rf), w1)"
  obtains f where "cover_image req = Some f"
    and "rf = \<lparr>part = f, filename = storage_filename dr f\<rparr>"
    and "w1 = (storage_destination w)
                \<lparr>disk := (disk (storage_destination w))(storage_filename dr f \<mapsto> f)\<rparr>"
    and "filetypes_test (mimetype f)"
    and "filetypes_test (toLowerCase (extname (originalname f)))"
    and "file_size f \<le> fileSize"
proof -
  from assms have u: "upload w dr req = (Inr (Some rf), w1)" by (simp add: handleFileUpload_def)
  then obtain f where f: "cover_image req = Some f"
    using upload_no_cover_image [of req w dr rf] by (cases "cover_image req") auto
  then have "upload_part w dr f = (Inr (Some rf), w1)" using u upload_cover_image by simp
  then show ?thesis using that [OF f]
    by (auto simp: upload_part_cases split: if_splits)
qed

lemma upload_stored:
  assumes "handleFileUpload w dr req = (Inr (Some rf), w1)"
  shows "cover_image req = Some (part rf)"
    and "filename rf = storage_filename dr (part rf)"
    and "disk w1 (filename rf) = Some (part rf)"
    and "uploads_dir w1"
    and "fileFilter (part rf) = Inr True"
    and "file_size (part rf) \<le> fileSize"
proof -
  from upload_accepted [OF assms] obtain f where
      c: "cover_image req = Some f"
    and rf: "rf = \<lparr>part = f, filename = storage_filename dr f\<rparr>"
    and w1: "w1 = (storage_destination w)
                \<lparr>disk := (disk (storage_destination w))(storage_filename dr f \<mapsto> f)\<rparr>"
    and t: "filetypes_test (mimetype f)"
      "filetypes_test (toLowerCase (extname (originalname f)))"
    and sz: "file_size f \<le> fileSize"
    by blast
  show "cover_image req = Some (part rf)" using c rf by simp
  show "filename rf = storage_filename dr (part rf)" using rf by simp
  show "disk w1 (filename rf) = Some (part rf)" using rf w1 by simp
  show "uploads_dir w1" using w1 by (simp add: storage_destination_def)
  show "fileFilter (part rf) = Inr True" using rf t by (simp add: fileFilter_def)
  show "file_size (part rf) \<le> fileSize" using rf sz by simp
qed

lemma upload_writes:
  assumes "handleFileUpload w dr req = (Inr (Some rf), w1)"
  shows "uploads_dir w1"
    and "filename rf = ''project-'' @ show_nat (date_now_upload dr) @ ''-''
            @ show_nat (math_random dr) @ extname (originalname (part rf))"
    and "disk w1 (filename rf) = Some (part rf)"
    and "n \<noteq> filename rf \<Longrightarrow> disk w1 n = disk w n"
proof -
  from upload_accepted [OF assms] obtain f where
      rf: "rf = \<lparr>part = f, filename = storage_filename dr f\<rparr>"
    and w1: "w1 = (storage_destination w)
                \<lparr>disk := (disk (storage_destination w))(storage_filename dr f \<mapsto> f)\<rparr>"
    by blast
  show "uploads_dir w1" using w1 by (simp add: storage_destination_def)
  show "filename rf = ''project-'' @ show_nat (date_now_upload dr) @ ''-''
            @ show_nat (math_random dr) @ extname (originalname (part rf))"
    using rf by (simp add: storage_filename_def)
  show "disk w1 (filename rf) = Some (part rf)" using rf w1 by simp
  show "n \<noteq> filename rf \<Longrightarrow> disk w1 n = disk w n"
    using rf w1 by (simp add: storage_destination_def)
qed

lemma upload_step_Some:
  assumes "upload_step w dr req = (Inr (Some rf), w1)"
  shows "is_multipart req" and "handleFileUpload w dr req = (Inr (Some rf), w1)"
  using assms by (auto simp: upload_step_def split: if_splits)

lemma save_Inr:
  "save w p = Inr w' \<longleftrightarrow>
     checkRequired (title p) \<and> checkRequired (description p) \<and> checkRequired (details p)
     \<and> store_up w \<and> w' = w\<lparr>projects := projects w @ [p]\<rparr>"
  by (auto simp: save_def)

lemma create_project_Inr:
  assumes "create_project w dr req b url path = Inr (p, w')"
  shows "checkRequired (title p)" and "checkRequired (description p)"
    and "checkRequired (details p)" and "store_up w"
    and "w' = w\<lparr>projects := projects w @ [p]\<rparr>"
  using assms
  by (auto simp: create_project_def bindE_Inr save_Inr split: if_splits)

lemma new_Project_Inr:
  assumes "new_Project dr fd url path = Inr p"
  shows "oid p = object_id dr" and "createdAt p = date_now_create dr"
    and "coverImagePath p = Some path"
    and "castString url = Inr (coverImageUrl p)"
    and "castString (field fd ''title'') = Inr (title p)"
    and "castString (field fd ''description'') = Inr (description p)"
    and "castString (field fd ''details'') = Inr (details p)"
    and "castString (field fd ''liveLink'') = Inr (liveLink p)"
    and "castString (field fd ''price'') = Inr (price p)"
    and "castArray (if truthy (field fd ''techStack'') then field fd ''techStack'' else Arr [])
           = Inr (techStack p)"
  using assms
  by (auto simp: new_Project_def bindE_Inr dest!: get_prop_field)

lemma formData_form_fields:
  assumes "express_json req = Inr b"
    and "(if is_multipart req then JSON_parse (data req) else Inr b) = Inr fd"
  shows "fd = form_fields req"
  using assms by (auto simp: form_fields_def split: if_splits)

lemma create_project_fields:
  assumes "express_json req = Inr b"
    and "create_project w dr req b url path = Inr (p, w')"
  shows "\<exists>url'. new_Project dr (form_fields req) url' path = Inr p
           \<and> (if url = [] then url' = (if truthy (field (form_fields req) ''coverImageUrl'')
                                       then field (form_fields req) ''coverImageUrl'' else Str [])
               else url' = Str url)"
proof -
  from assms(2) obtain fd url' where
      fd: "(if is_multipart req then JSON_parse (data req) else Inr b) = Inr fd"
    and u: "(if \<not> truthy (Str url)
            then bindE (get_prop fd ''coverImageUrl'') (\<lambda>u. Inr (if truthy u then u else Str url))
            else Inr (Str url)) = Inr url'"
    and np: "new_Project dr fd url' path = Inr p"
    unfolding create_project_def bindE_Inr by blast
  have "fd = form_fields req" using formData_form_fields [OF assms(1) fd] .
  then show ?thesis using u np
    by (auto simp: bindE_Inr split: if_splits dest!: get_prop_field)
qed

text \<open>The four ways a create request ends.\<close>

lemma post_create_cases [case_names parser upload failed created]:
  obtains
    st where "express_json req = Inl st" "st = 400 \<or> st = 413 \<or> st = 415"
      "post_create w dr req = (\<lparr>status = st, body = ErrorPage\<rparr>, w)"
  | e w1 where "\<not> body_rejected req" "is_multipart req" "upload_step w dr req = (Inl e, w1)"
      "post_create w dr req = (\<lparr>status = 400, body = ErrorJson (message e)\<rparr>, w1)"
  | up w1 err b where "express_json req = Inr b" "upload_step w dr req = (Inr up, w1)"
      "create_project w1 dr req b (cover_url req up) (cover_path up) = Inl err"
      "post_create w dr req =
         (\<lparr>status = 500, body = ErrorJson ''Internal server error''\<rparr>, w1)"
  | up w1 p b where "express_json req = Inr b" "upload_step w dr req = (Inr up, w1)"
      "create_project w1 dr req b (cover_url req up) (cover_path up)
         = Inr (p, w1\<lparr>projects := projects w1 @ [p]\<rparr>)"
      "post_create w dr req =
         (\<lparr>status = 201, body = Created ''Project created successfully'' p\<rparr>,
          w1\<lparr>projects := projects w1 @ [p]\<rparr>)"
proof (cases "express_json req")
  case (Inl st)
  have "post_create w dr req = (\<lparr>status = st, body = ErrorPage\<rparr>, w)"
    using Inl by (simp add: post_create_def)
  then show ?thesis using that(1) [OF Inl express_json_status [OF Inl]] by blast
next
  case (Inr b)
  then have nb: "\<not> body_rejected req" by (simp add: body_rejected_def)
  obtain res w1 where au: "upload_step w dr req = (res, w1)" by (cases "upload_step w dr req")
  have pc: "post_create w dr req =
     (case res of
        Inl fileError \<Rightarrow> (\<lparr>status = 400, body = ErrorJson (message fileError)\<rparr>, w1)
      | Inr uploaded \<Rightarrow>
          (case create_project w1 dr req b (cover_url req uploaded) (cover_path uploaded) of
             Inl err \<Rightarrow> (\<lparr>status = 500, body = ErrorJson ''Internal server error''\<rparr>, w1)
           | Inr (p, w2) \<Rightarrow>
               (\<lparr>status = 201, body = Created ''Project created successfully'' p\<rparr>, w2)))"
    using Inr au by (simp add: post_create_def create_handler_def split: sum.splits)
  show ?thesis
  proof (cases res)
    case (Inl e)
    then have m: "is_multipart req" using au by (auto simp: upload_step_def split: if_splits)
    show ?thesis using that(2) [OF nb m] au Inl pc by simp
  next
    case up: (Inr up)
    show ?thesis
    proof (cases "create_project w1 dr req b (cover_url req up) (cover_path up)")
      case (Inl err)
      then show ?thesis using that(3) [OF Inr] au up pc by simp
    next
      case cp: (Inr pw)
      obtain p w2 where pw: "pw = (p, w2)" by (cases pw)
      have "w2 = w1\<lparr>projects := projects w1 @ [p]\<rparr>"
        using create_project_Inr(5) cp pw by blast
      then show ?thesis using that(4) [OF Inr] au up pc cp pw by simp
    qed
  qed
qed

lemma post_create_created:
  assumes "post_create w dr req = (r, w')" and "status r = 201"
  obtains p up w1 url' where
    "r = \<lparr>status = 201, body = Created ''Project created successfully'' p\<rparr>"
    "upload_step w dr req = (Inr up, w1)"
    "w' = w1\<lparr>projects := projects w1 @ [p]\<rparr>"
    "new_Project dr (form_fields req) url' (cover_path up) = Inr p"
    "if cover_url req up = []
     then url' = (if truthy (field (form_fields req) ''coverImageUrl'')
                  then field (form_fields req) ''coverImageUrl'' else Str [])
     else url' = Str (cover_url req up)"
    "checkRequired (title p)" "checkRequired (description p)" "checkRequired (details p)"
    "store_up w"
proof (cases rule: post_create_cases [where w = w and dr = dr and req = req])
  case (parser st)
  then show ?thesis using assms by auto
next
  case (upload e w1)
  then show ?thesis using assms by simp
next
  case (failed up w1 err b)
  then show ?thesis using assms by simp
next
  case (created up w1 p b)
  from create_project_fields [OF created(1,3)] obtain url' where
     np: "new_Project dr (form_fields req) url' (cover_path up) = Inr p"
   and u: "if cover_url req up = []
     then url' = (if truthy (field (form_fields req) ''coverImageUrl'')
                  then field (form_fields req) ''coverImageUrl'' else Str [])
     else url' = Str (cover_url req up)"
    by blast
  have su: "store_up w"
    using create_project_Inr(4) [OF created(3)] upload_step_keeps_store(2) [of w dr req] created(2)
    by simp
  show ?thesis
    using that [OF _ created(2) _ np u create_project_Inr(1,2,3) [OF created(3)] su]
      created(4) assms(1) by simp
qed

lemma post_create_count:
  "length (projects (snd (post_create w dr req))) =
     length (projects w) + (if status (fst (post_create w dr req)) = 201 then 1 else 0)"
  "store_up (snd (post_create w dr req)) = store_up w"
proof -
  have "length (projects (snd (post_create w dr req))) =
     length (projects w) + (if status (fst (post_create w dr req)) = 201 then 1 else 0)
    \<and> store_up (snd (post_create w dr req)) = store_up w"
  proof (cases rule: post_create_cases [where w = w and dr = dr and req = req])
    case (parser st)
    then show ?thesis by auto
  next
    case (upload e w1)
    then show ?thesis using upload_step_keeps_store [of w dr req] by simp
  next
    case (failed up w1 err b)
    then show ?thesis using upload_step_keeps_store [of w dr req] by simp
  next
    case (created up w1 p b)
    then show ?thesis using upload_step_keeps_store [of w dr req] by simp
  qed
  then show "length (projects (snd (post_create w dr req))) =
     length (projects w) + (if status (fst (post_create w dr req)) = 201 then 1 else 0)"
    and "store_up (snd (post_create w dr req)) = store_up w" by simp_all
qed

lemma serve_count:
  "length (projects (snd (serve w reqs))) =
     length (projects w) + length (filter (\<lambda>r. status r = 201) (fst (serve w reqs)))
   \<and> store_up (snd (serve w reqs)) = store_up w"
proof (induction reqs arbitrary: w)
  case Nil
  then show ?case by simp
next
  case (Cons a reqs)
  obtain dr req where a: "a = (dr, req)" by (cases a)
  show ?case
    using Cons.IH [of "snd (post_create w dr req)"] post_create_count [of w dr req] a
    by (simp add: split_beta)
qed

section \<open>The properties of the specification\<close>

subsection \<open>Creating a project from valid fields\<close>

lemma field_Str_Obj: "field fd k = Str s \<Longrightarrow> \<exists>kvs. fd = Obj kvs"
  by (cases fd) (simp_all add: field_def)

lemma get_prop_Obj: "get_prop (Obj kvs) k = Inr (field (Obj kvs) k)"
  by (simp add: field_def)

lemma castString_optional: "optional_text v \<Longrightarrow> \<exists>c. castString v = Inr c"
  by (cases v) simp_all

lemma castStrings_text: "list_all is_text vs \<Longrightarrow> \<exists>cs. castStrings vs = Inr cs"
proof (induction vs)
  case Nil
  then show ?case by simp
next
  case (Cons v vs)
  then obtain cs where "castStrings vs = Inr cs" by auto
  moreover from Cons.prems obtain s where "v = Str s" by (cases v) simp_all
  ultimately show ?case by (simp add: bindE_simps)
qed

lemma castArray_tags:
  assumes "optional_tags v"
  shows "\<exists>cs. castArray (if truthy v then v else Arr []) = Inr cs \<and> (v = Undefined \<longrightarrow> cs = [])"
  using assms castStrings_text by (cases v) auto

lemma new_Project_total:
  assumes "field (Obj kvs) ''title'' = Str t"
    and "field (Obj kvs) ''description'' = Str d"
    and "field (Obj kvs) ''details'' = Str x"
    and "optional_text (field (Obj kvs) ''liveLink'')"
    and "optional_text (field (Obj kvs) ''price'')"
    and "optional_tags (field (Obj kvs) ''techStack'')"
    and "optional_text url"
  shows "\<exists>p. new_Project dr (Obj kvs) url path = Inr p
           \<and> title p = Some t \<and> description p = Some d \<and> details p = Some x
           \<and> (field (Obj kvs) ''techStack'' = Undefined \<longrightarrow> techStack p = [])"
proof -
  from castString_optional [OF assms(4)] obtain cl where
    cl: "castString (field (Obj kvs) ''liveLink'') = Inr cl" by blast
  from castString_optional [OF assms(5)] obtain cp where
    cp: "castString (field (Obj kvs) ''price'') = Inr cp" by blast
  from castString_optional [OF assms(7)] obtain cu where
    cu: "castString url = Inr cu" by blast
  from castArray_tags [OF assms(6)] obtain ct where
    ct: "castArray (if truthy (field (Obj kvs) ''techStack'')
                    then field (Obj kvs) ''techStack'' else Arr []) = Inr ct"
      "field (Obj kvs) ''techStack'' = Undefined \<longrightarrow> ct = []" by blast
  show ?thesis
    unfolding new_Project_def get_prop_Obj bindE_simps
    using assms(1,2,3) cl cp cu ct by (simp add: bindE_simps)
qed

lemma create_project_total:
  assumes "(if is_multipart req then JSON_parse (data req) else Inr b) = Inr (Obj kvs)"
    and "field (Obj kvs) ''title'' = Str t" and "t \<noteq> []"
    and "field (Obj kvs) ''description'' = Str d" and "d \<noteq> []"
    and "field (Obj kvs) ''details'' = Str x" and "x \<noteq> []"
    and "well_typed (Obj kvs)"
    and "store_up w"
  shows "\<exists>p. create_project w dr req b url path = Inr (p, w\<lparr>projects := projects w @ [p]\<rparr>)
           \<and> title p = Some t \<and> description p = Some d \<and> details p = Some x
           \<and> (field (Obj kvs) ''techStack'' = Undefined \<longrightarrow> techStack p = [])"
proof -
  define url' where "url' =
     (if \<not> truthy (Str url)
      then (if truthy (field (Obj kvs) ''coverImageUrl'')
            then field (Obj kvs) ''coverImageUrl'' else Str url)
      else Str url)"
  have ou: "optional_text url'"
    using assms(8) by (simp add: url'_def well_typed_def)
  have pick: "(if \<not> truthy (Str url)
            then bindE (get_prop (Obj kvs) ''coverImageUrl'')
                   (\<lambda>u. Inr (if truthy u then u else Str url))
            else Inr (Str url)) = Inr url'"
    unfolding get_prop_Obj bindE_simps url'_def by simp
  from new_Project_total [OF assms(2,4,6) _ _ _ ou, of dr path] assms(8)
  obtain p where np: "new_Project dr (Obj kvs) url' path = Inr p"
    and f: "title p = Some t" "description p = Some d" "details p = Some x"
       "field (Obj kvs) ''techStack'' = Undefined \<longrightarrow> techStack p = []"
    by (auto simp: well_typed_def)
  have sv: "save w p = Inr (w\<lparr>projects := projects w @ [p]\<rparr>)"
    using f assms(3,5,7,9) by (simp add: save_def checkRequired_def)
  have "create_project w dr req b url path = Inr (p, w\<lparr>projects := projects w @ [p]\<rparr>)"
    unfolding create_project_def assms(1) bindE_simps pick np sv ..
  then show ?thesis using f by blast
qed

text \<open>
  C1, as amended. The form data of a request are what line 108 takes: the parsed
  \<^verbatim>\<open>data\<close> field of a multipart request, and of any other request the body as the
  body parser delivers it, which is the empty object when the parser does not take the
  request for JSON and nothing when the parser refuses it. A create request (multipart
  or plain JSON) whose form data hold a non-empty text as \<^verbatim>\<open>title\<close>,
  \<^verbatim>\<open>description\<close> and \<^verbatim>\<open>details\<close>, whose other fields have the types of the data
  model, whose upload (if any) does not end in an error, and which finds the store
  available, is answered with status 201; the returned project has the title,
  description and details of the request, and its \<^verbatim>\<open>techStack\<close> is the empty sequence
  when the request has no such field. Without the three added conditions the answer is
  400 or 500, as the counterexample below shows.
\<close>

theorem C1_valid_create_succeeds:
  assumes "field (form_fields req) ''title'' = Str t" and "t \<noteq> []"
    and "field (form_fields req) ''description'' = Str d" and "d \<noteq> []"
    and "field (form_fields req) ''details'' = Str x" and "x \<noteq> []"
    and "well_typed (form_fields req)"
    and "\<not> upload_rejected w dr req"
    and "store_up w"
  shows "\<exists>p. fst (post_create w dr req) =
               \<lparr>status = 201, body = Created ''Project created successfully'' p\<rparr>
           \<and> title p = Some t \<and> description p = Some d \<and> details p = Some x
           \<and> (field (form_fields req) ''techStack'' = Undefined \<longrightarrow> techStack p = [])"
proof -
  from field_Str_Obj [OF assms(1)] obtain kvs where ff: "form_fields req = Obj kvs" by blast
  obtain b where b: "express_json req = Inr b"
    using ff by (cases "express_json req") (auto simp: form_fields_def express_json_multipart split: if_splits)
  have fd: "(if is_multipart req then JSON_parse (data req) else Inr b) = Inr (Obj kvs)"
    using ff b by (cases "JSON_parse (data req)") (auto simp: form_fields_def split: if_splits)
  obtain res w1 where us: "upload_step w dr req = (res, w1)" by (cases "upload_step w dr req")
  then obtain up where up: "res = Inr up"
    using assms(8) by (cases res) (simp_all add: upload_rejected_def)
  have su: "store_up w1" using upload_step_keeps_store(2) [of w dr req] us assms(9) by simp
  from create_project_total [OF fd assms(1-7)[unfolded ff] su]
  obtain p where cp: "create_project w1 dr req b (cover_url req up) (cover_path up)
        = Inr (p, w1\<lparr>projects := projects w1 @ [p]\<rparr>)"
    and f: "title p = Some t" "description p = Some d" "details p = Some x"
       "field (Obj kvs) ''techStack'' = Undefined \<longrightarrow> techStack p = []"
    by blast
  have "fst (post_create w dr req) =
               \<lparr>status = 201, body = Created ''Project created successfully'' p\<rparr>"
    using b us up cp by (simp add: post_create_def create_handler_def)
  then show ?thesis using f ff by auto
qed

theorem C1_witness:
  "(\<exists>p. fst (post_create world0 draw0 (json_request (Some fields_A))) =
          \<lparr>status = 201, body = Created ''Project created successfully'' p\<rparr>
       \<and> title p = Some ''A'' \<and> description p = Some ''d'' \<and> details p = Some ''x''
       \<and> techStack p = [])
   \<and> (\<exists>p. fst (post_create world0 draw0 (multipart_request (Some png_file) (Json fields_A))) =
          \<lparr>status = 201, body = Created ''Project created successfully'' p\<rparr>
       \<and> title p = Some ''A'' \<and> description p = Some ''d'' \<and> details p = Some ''x''
       \<and> techStack p = [])"
proof -
  let ?j = "json_request (Some fields_A)"
  let ?m = "multipart_request (Some png_file) (Json fields_A)"
  have f: "field (form_fields ?j) ''title'' = Str ''A''"
      "field (form_fields ?j) ''description'' = Str ''d''"
      "field (form_fields ?j) ''details'' = Str ''x''"
      "field (form_fields ?j) ''techStack'' = Undefined"
    by (simp_all add: eval_defs)
  have g: "field (form_fields ?m) ''title'' = Str ''A''"
      "field (form_fields ?m) ''description'' = Str ''d''"
      "field (form_fields ?m) ''details'' = Str ''x''"
      "field (form_fields ?m) ''techStack'' = Undefined"
    by (simp_all add: eval_defs)
  have wt: "well_typed (form_fields ?j)" "well_typed (form_fields ?m)"
    by (simp_all add: eval_defs)
  have nu: "\<not> upload_rejected world0 draw0 ?j" "\<not> upload_rejected world0 draw0 ?m"
    by (simp_all add: eval_defs)
  have su: "store_up world0" by (simp add: world0_def)
  have 1: "\<exists>p. fst (post_create world0 draw0 ?j) =
          \<lparr>status = 201, body = Created ''Project created successfully'' p\<rparr>
       \<and> title p = Some ''A'' \<and> description p = Some ''d'' \<and> details p = Some ''x''
       \<and> techStack p = []"
    using C1_valid_create_succeeds [OF f(1) _ f(2) _ f(3) _ wt(1) nu(1) su] f(4) by simp
  have 2: "\<exists>p. fst (post_create world0 draw0 ?m) =
          \<lparr>status = 201, body = Created ''Project created successfully'' p\<rparr>
       \<and> title p = Some ''A'' \<and> description p = Some ''d'' \<and> details p = Some ''x''
       \<and> techStack p = []"
    using C1_valid_create_succeeds [OF g(1) _ g(2) _ g(3) _ wt(2) nu(2) su] g(4) by simp
  from 1 2 show ?thesis by (rule conjI)
qed

theorem C1_counterexample:
  "field (form_fields (multipart_request (Some txt_file) (Json fields_A))) ''title'' = Str ''A''
   \<and> field (form_fields (multipart_request (Some txt_file) (Json fields_A))) ''description'' = Str ''d''
   \<and> field (form_fields (multipart_request (Some txt_file) (Json fields_A))) ''details'' = Str ''x''
   \<and> status (fst (post_create world0 draw0 (multipart_request (Some txt_file) (Json fields_A)))) = 400
   \<and> field (form_fields (json_request (Some fields_A))) ''title'' = Str ''A''
   \<and> status (fst (post_create (world0\<lparr>store_up := False\<rparr>) draw0 (json_request (Some fields_A)))) = 500
   \<and> field (form_fields (json_request (Some fields_bad_price))) ''title'' = Str ''A''
   \<and> status (fst (post_create world0 draw0 (json_request (Some fields_bad_price)))) = 500"
  by (simp add: eval_defs)

subsection \<open>The file filter\<close>









subsection \<open>Stored extensions\<close>

text \<open>
  C3. The claim wants every stored file to end in one of the extensions jpg, jpeg, png,
  gif, and every other file to be answered with 400 and not kept. The pattern of line
  60 is not anchored, so the filter passes any extension in which one of the words
  occurs: the upload \<^verbatim>\<open>report.pngx\<close>, declared as \<^verbatim>\<open>image/png\<close>, is answered
  with 201 and stays on disk under a name that ends in \<^verbatim>\<open>.pngx\<close>.
\<close>

theorem C3_loose_extension_accepted:
  "cover_image (multipart_request (Some pngx_file) (Json fields_A)) = Some pngx_file
   \<and> extname (originalname pngx_file) = ''.pngx''
   \<and> \<not> listed_extension (originalname pngx_file)
   \<and> status (fst (post_create world0 draw0 (multipart_request (Some pngx_file) (Json fields_A)))) = 201
   \<and> disk (snd (post_create world0 draw0 (multipart_request (Some pngx_file) (Json fields_A))))
        ''project-1700000000123-123456789.pngx'' = Some pngx_file"
  by (simp add: eval_defs)

subsection \<open>Missing required fields\<close>

lemma missing_not_required:
  "missing_or_empty v \<Longrightarrow> castString v = Inr c \<Longrightarrow> \<not> checkRequired c"
  by (cases v) (auto simp: checkRequired_def)

lemma checkRequired_complete:
  "checkRequired (title p) \<Longrightarrow> checkRequired (description p) \<Longrightarrow> checkRequired (details p)
   \<Longrightarrow> complete p"
  by (auto simp: checkRequired_def complete_def split: option.splits)

lemma missing_never_saved:
  assumes "some_required_missing fd" and "new_Project dr fd url path = Inr p"
  shows "save v p = Inl ValidationError"
  using assms(1) new_Project_Inr(5,6,7) [OF assms(2)] missing_not_required
  by (auto simp: some_required_missing_def save_def)

lemma post_create_missing:
  assumes "some_required_missing (form_fields req)"
  shows "projects (snd (post_create w dr req)) = projects w
       \<and> status (fst (post_create w dr req)) =
           (case express_json req of
              Inl st \<Rightarrow> st
            | Inr b \<Rightarrow> if upload_rejected w dr req then 400 else 500)"
proof (cases rule: post_create_cases [where w = w and dr = dr and req = req])
  case (parser st)
  then show ?thesis by simp
next
  case (upload e w1)
  then show ?thesis
    using upload_step_keeps_store(1) [of w dr req]
    by (auto simp: upload_rejected_def body_rejected_def split: sum.splits)
next
  case (failed up w1 err b)
  then show ?thesis
    using upload_step_keeps_store(1) [of w dr req]
    by (simp add: upload_rejected_def)
next
  case (created up w1 p b)
  from create_project_fields [OF created(1,3)] obtain url' where
    np: "new_Project dr (form_fields req) url' (cover_path up) = Inr p" by blast
  have "save w1 p = Inl ValidationError" using missing_never_saved [OF assms np] .
  then have False using create_project_Inr(1,2,3) [OF created(3)]
    by (simp add: save_def split: if_splits)
  then show ?thesis ..
qed

lemma post_create_complete:
  assumes "list_all complete (projects w)"
  shows "list_all complete (projects (snd (post_create w dr req)))"
proof (cases rule: post_create_cases [where w = w and dr = dr and req = req])
  case (parser st)
  then show ?thesis using assms by simp
next
  case (upload e w1)
  then show ?thesis using assms upload_step_keeps_store(1) [of w dr req] by simp
next
  case (failed up w1 err b)
  then show ?thesis using assms upload_step_keeps_store(1) [of w dr req] by simp
next
  case (created up w1 p b)
  have "complete p"
    using create_project_Inr(1,2,3) [OF created(3)] by (rule checkRequired_complete)
  then show ?thesis
    using created(4) assms upload_step_keeps_store(1) [of w dr req] created(2) by simp
qed

lemma serve_complete:
  "list_all complete (projects w) \<Longrightarrow> list_all complete (projects (snd (serve w reqs)))"
proof (induction reqs arbitrary: w)
  case Nil
  then show ?case by simp
next
  case (Cons a reqs)
  obtain dr req where a: "a = (dr, req)" by (cases a)
  have "list_all complete (projects (snd (serve (snd (post_create w dr req)) reqs)))"
    using Cons.IH post_create_complete [OF Cons.prems] by blast
  then show ?case using a by (simp add: split_beta)
qed

text \<open>
  C4, as amended. When \<^verbatim>\<open>title\<close>, \<^verbatim>\<open>description\<close> or \<^verbatim>\<open>details\<close> is missing
  or empty in a create request, no record is persisted, and the store refuses every
  document built from such form data with a validation error. The status of the
  answer is the one of the body parser when the body parser refuses the request
  (400, 413 or 415); otherwise it is 400 when the upload is rejected, and 500 in
  every other case. Every run of create requests that starts from a collection of
  complete documents ends in one: every persisted project has a non-empty title,
  description and details.
\<close>

theorem C4_missing_required_not_persisted:
  "(some_required_missing (form_fields req) \<longrightarrow>
       projects (snd (post_create w dr req)) = projects w
     \<and> status (fst (post_create w dr req)) =
         (case express_json req of
            Inl st \<Rightarrow> st
          | Inr b \<Rightarrow> if upload_rejected w dr req then 400 else 500)
     \<and> (\<forall>url path p v. new_Project dr (form_fields req) url path = Inr p \<longrightarrow>
            save v p = Inl ValidationError))
   \<and> (\<forall>st. express_json req = Inl st \<longrightarrow> st = 400 \<or> st = 413 \<or> st = 415)
   \<and> (list_all complete (projects w) \<longrightarrow>
         list_all complete (projects (snd (serve w reqs))))"
  using post_create_missing missing_never_saved serve_complete express_json_status
  by blast

theorem C4_witness:
  "some_required_missing (form_fields (json_request (Some fields_no_title)))
   \<and> projects (snd (post_create world0 draw0 (json_request (Some fields_no_title)))) = []
   \<and> status (fst (post_create world0 draw0 (json_request (Some fields_no_title)))) = 500
   \<and> some_required_missing (form_fields latin1_request)
   \<and> status (fst (post_create world0 draw0 latin1_request)) = 415
   \<and> some_required_missing (form_fields empty_request)
   \<and> status (fst (post_create world0 draw0 empty_request)) = 500
   \<and> some_required_missing (form_fields no_boundary_request)
   \<and> status (fst (post_create world0 draw0 no_boundary_request)) = 400
   \<and> list_all complete (projects world0)
   \<and> length (projects (snd (serve world0
         [(draw0, json_request (Some fields_A)), (draw0, json_request (Some fields_no_title))]))) = 1
   \<and> list_all complete (projects (snd (serve world0
         [(draw0, json_request (Some fields_A)), (draw0, json_request (Some fields_no_title))])))"
proof -
  let ?j = "json_request (Some fields_no_title)"
  let ?rs = "[(draw0, json_request (Some fields_A)), (draw0, ?j)]"
  have m: "some_required_missing (form_fields ?j)"
    "some_required_missing (form_fields latin1_request)"
    "some_required_missing (form_fields empty_request)"
    "some_required_missing (form_fields no_boundary_request)"
    by (simp_all add: eval_defs)
  have e: "express_json ?j = Inr fields_no_title"
    "express_json latin1_request = Inl 415"
    "express_json empty_request = Inr (Obj [])"
    "express_json no_boundary_request = Inr (Obj [])"
    by (simp_all add: eval_defs)
  have u: "\<not> upload_rejected world0 draw0 ?j"
    "\<not> upload_rejected world0 draw0 empty_request"
    "upload_rejected world0 draw0 no_boundary_request"
    by (simp_all add: eval_defs)
  have c: "list_all complete (projects world0)" by (simp add: world0_def)
  have n: "length (projects (snd (serve world0 ?rs))) = 1"
    by (simp add: eval_defs)
  note c4 = C4_missing_required_not_persisted [where dr = draw0 and w = world0 and reqs = ?rs]
  have j: "projects (snd (post_create world0 draw0 ?j)) = projects world0
      \<and> status (fst (post_create world0 draw0 ?j)) = 500"
    using c4 [where req = ?j] m(1) e(1) u(1) by simp
  have l: "status (fst (post_create world0 draw0 latin1_request)) = 415"
    using c4 [where req = latin1_request] m(2) e(2) by simp
  have y: "status (fst (post_create world0 draw0 empty_request)) = 500"
    using c4 [where req = empty_request] m(3) e(3) u(2) by simp
  have x: "status (fst (post_create world0 draw0 no_boundary_request)) = 400"
    using c4 [where req = no_boundary_request] m(4) e(4) u(3) by simp
  have k: "list_all complete (projects (snd (serve world0 ?rs)))"
    using c4 [where req = ?j] c by blast
  show ?thesis using m j l y x c n k by (simp add: world0_def)
qed

theorem C4_counterexample:
  "some_required_missing (form_fields (multipart_request (Some txt_file) (Json fields_no_title)))
   \<and> status (fst (post_create world0 draw0
         (multipart_request (Some txt_file) (Json fields_no_title)))) = 400"
  by (simp add: eval_defs)

subsection \<open>The cover image of a created project\<close>

text \<open>
  C5. In every successful create the returned project is the one added to the
  collection. If the upload stored a file, the project's \<^verbatim>\<open>coverImagePath\<close> is
  \<^verbatim>\<open>/uploads/\<close> followed by the generated file name, under which the file is on
  disk, and its \<^verbatim>\<open>coverImageUrl\<close> is the protocol, the host and that path, whatever
  \<^verbatim>\<open>coverImageUrl\<close> the form data hold. If no file was stored and the form data
  hold a text as \<^verbatim>\<open>coverImageUrl\<close>, the project's \<^verbatim>\<open>coverImageUrl\<close> is that text.
\<close>

theorem C5_upload_takes_precedence:
  assumes "post_create w dr req = (r, w')" and "status r = 201"
  shows "\<exists>p. body r = Created ''Project created successfully'' p
           \<and> projects w' = projects w @ [p]
           \<and> (\<forall>rf. fst (upload_step w dr req) = Inr (Some rf) \<longrightarrow>
                  filename rf = storage_filename dr (part rf)
                \<and> disk w' (filename rf) = Some (part rf)
                \<and> coverImagePath p = Some (''/uploads/'' @ filename rf)
                \<and> coverImageUrl p =
                    Some (protocol req @ ''://'' @ host req @ ''/uploads/'' @ filename rf))
           \<and> (\<forall>u. fst (upload_step w dr req) = Inr None \<longrightarrow>
                  field (form_fields req) ''coverImageUrl'' = Str u \<longrightarrow>
                  coverImageUrl p = Some u)"
proof -
  from assms obtain p up w1 url' where
      r: "r = \<lparr>status = 201, body = Created ''Project created successfully'' p\<rparr>"
    and us: "upload_step w dr req = (Inr up, w1)"
    and w': "w' = w1\<lparr>projects := projects w1 @ [p]\<rparr>"
    and np: "new_Project dr (form_fields req) url' (cover_path up) = Inr p"
    and u: "if cover_url req up = []
     then url' = (if truthy (field (form_fields req) ''coverImageUrl'')
                  then field (form_fields req) ''coverImageUrl'' else Str [])
     else url' = Str (cover_url req up)"
    by (rule post_create_created)
  have pw: "projects w1 = projects w"
    using upload_step_keeps_store(1) [of w dr req] us by simp
  have a: "body r = Created ''Project created successfully'' p" using r by simp
  have b: "projects w' = projects w @ [p]" using w' pw by simp
  have c: "filename rf = storage_filename dr (part rf)
         \<and> disk w' (filename rf) = Some (part rf)
         \<and> coverImagePath p = Some (''/uploads/'' @ filename rf)
         \<and> coverImageUrl p = Some (protocol req @ ''://'' @ host req @ ''/uploads/'' @ filename rf)"
    if "fst (upload_step w dr req) = Inr (Some rf)" for rf
  proof -
    from that us have up: "up = Some rf" by simp
    have h: "handleFileUpload w dr req = (Inr (Some rf), w1)"
      using upload_step_Some(2) us up by simp
    have "url' = Str (cover_url req up)" using u up by (simp add: cover_url_def)
    then have "coverImageUrl p = Some (cover_url req up)"
      using new_Project_Inr(4) [OF np] by simp
    moreover have "coverImagePath p = Some (cover_path up)"
      using new_Project_Inr(3) [OF np] .
    ultimately show ?thesis
      using upload_stored(2,3) [OF h] up w' by (simp add: cover_url_def cover_path_def)
  qed
  have d: "coverImageUrl p = Some v"
    if "fst (upload_step w dr req) = Inr None" "field (form_fields req) ''coverImageUrl'' = Str v"
    for v
  proof -
    from that us have up: "up = None" by simp
    have "url' = Str v" using u up that(2) by (auto simp: cover_url_def)
    then show ?thesis using new_Project_Inr(4) [OF np] by simp
  qed
  show ?thesis using a b c d by blast
qed

theorem C5_witness:
  "status (fst (post_create world0 draw0 (multipart_request (Some png_file) (Json fields_url)))) = 201
   \<and> fst (upload_step world0 draw0 (multipart_request (Some png_file) (Json fields_url))) =
       Inr (Some \<lparr>part = png_file, filename = ''project-1700000000123-123456789.png''\<rparr>)
   \<and> (\<exists>p. body (fst (post_create world0 draw0 (multipart_request (Some png_file) (Json fields_url))))
             = Created ''Project created successfully'' p
          \<and> coverImagePath p = Some ''/uploads/project-1700000000123-123456789.png''
          \<and> coverImageUrl p =
               Some ''http://localhost:5000/uploads/project-1700000000123-123456789.png'')
   \<and> status (fst (post_create world0 draw0 (json_request (Some fields_url)))) = 201
   \<and> fst (upload_step world0 draw0 (json_request (Some fields_url))) = Inr None
   \<and> field (form_fields (json_request (Some fields_url))) ''coverImageUrl'' =
       Str ''https://example.org/a.png''
   \<and> (\<exists>p. body (fst (post_create world0 draw0 (json_request (Some fields_url))))
             = Created ''Project created successfully'' p
          \<and> coverImageUrl p = Some ''https://example.org/a.png'')"
proof -
  let ?m = "multipart_request (Some png_file) (Json fields_url)"
  let ?j = "json_request (Some fields_url)"
  have s1: "status (fst (post_create world0 draw0 ?m)) = 201" by (simp add: eval_defs)
  have u1: "fst (upload_step world0 draw0 ?m) =
       Inr (Some \<lparr>part = png_file, filename = ''project-1700000000123-123456789.png''\<rparr>)"
    by (simp add: eval_defs)
  have s2: "status (fst (post_create world0 draw0 ?j)) = 201" by (simp add: eval_defs)
  have u2: "fst (upload_step world0 draw0 ?j) = Inr None" by (simp add: eval_defs)
  have f2: "field (form_fields ?j) ''coverImageUrl'' = Str ''https://example.org/a.png''"
    by (simp add: eval_defs)
  from C5_upload_takes_precedence [OF surjective_pairing s1] u1
  have e1: "\<exists>p. body (fst (post_create world0 draw0 ?m)) = Created ''Project created successfully'' p
          \<and> coverImagePath p = Some ''/uploads/project-1700000000123-123456789.png''
          \<and> coverImageUrl p =
               Some ''http://localhost:5000/uploads/project-1700000000123-123456789.png''"
    by (auto simp: multipart_request_def)
  from C5_upload_takes_precedence [OF surjective_pairing s2] u2 f2
  have e2: "\<exists>p. body (fst (post_create world0 draw0 ?j)) = Created ''Project created successfully'' p
          \<and> coverImageUrl p = Some ''https://example.org/a.png''"
    by auto
  show ?thesis using s1 u1 e1 s2 u2 f2 e2 by blast
qed

subsection \<open>Listing the projects\<close>

lemma find_sorted_mset: "mset (find_sorted ps) = mset ps"
  by (simp add: find_sorted_def)

lemma find_sorted_latest_first:
  "sorted_wrt (\<lambda>a b. createdAt b \<le> createdAt a) (find_sorted ps)"
proof -
  have "sorted (map (\<lambda>p. - int (createdAt p)) (find_sorted ps))"
    unfolding find_sorted_def by (rule sorted_sort_key)
  then show ?thesis by (simp add: sorted_wrt_map)
qed

text \<open>
  C6. The list route reads nothing but the store. While the store answers, it returns
  status 200 and every persisted project, each as often as it is in the collection,
  ordered by \<^verbatim>\<open>createdAt\<close> with the latest first; and after a run of create requests
  on an empty collection the listing has exactly as many entries as creates were
  answered with 201.
\<close>

theorem C6_list_returns_all_latest_first:
  "(store_up w \<longrightarrow>
      (\<exists>ps. get_projects w = \<lparr>status = 200, body = Projects ps\<rparr>
           \<and> mset ps = mset (projects w)
           \<and> sorted_wrt (\<lambda>a b. createdAt b \<le> createdAt a) ps))
   \<and> (store_up w \<and> projects w = [] \<longrightarrow>
      (\<exists>ps. get_projects (snd (serve w reqs)) = \<lparr>status = 200, body = Projects ps\<rparr>
           \<and> length ps = length (filter (\<lambda>r. status r = 201) (fst (serve w reqs)))))"
proof (intro conjI impI)
  assume "store_up w"
  then have "get_projects w = \<lparr>status = 200, body = Projects (find_sorted (projects w))\<rparr>"
    by (simp add: get_projects_def)
  then show "\<exists>ps. get_projects w = \<lparr>status = 200, body = Projects ps\<rparr>
           \<and> mset ps = mset (projects w)
           \<and> sorted_wrt (\<lambda>a b. createdAt b \<le> createdAt a) ps"
    using find_sorted_mset find_sorted_latest_first by blast
next
  assume a: "store_up w \<and> projects w = []"
  let ?w = "snd (serve w reqs)"
  have "store_up ?w" using a serve_count [of w reqs] by simp
  then have g: "get_projects ?w = \<lparr>status = 200, body = Projects (find_sorted (projects ?w))\<rparr>"
    by (simp add: get_projects_def)
  have "length (find_sorted (projects ?w)) = length (projects ?w)"
    by (simp add: find_sorted_def)
  then have "length (find_sorted (projects ?w))
               = length (filter (\<lambda>r. status r = 201) (fst (serve w reqs)))"
    using a serve_count [of w reqs] by simp
  then show "\<exists>ps. get_projects ?w = \<lparr>status = 200, body = Projects ps\<rparr>
           \<and> length ps = length (filter (\<lambda>r. status r = 201) (fst (serve w reqs)))"
    using g by blast
qed

theorem C6_witness:
  "store_up world0 \<and> projects world0 = []
   \<and> map status (fst (serve world0 three_requests)) = [201, 500, 201]
   \<and> (\<exists>ps. get_projects (snd (serve world0 three_requests))
               = \<lparr>status = 200, body = Projects ps\<rparr>
          \<and> length ps = 2
          \<and> mset ps = mset (projects (snd (serve world0 three_requests)))
          \<and> sorted_wrt (\<lambda>a b. createdAt b \<le> createdAt a) ps)
   \<and> map createdAt (find_sorted (projects (snd (serve world0 three_requests))))
       = [1700000000460, 1700000000125]"
proof -
  let ?w = "snd (serve world0 three_requests)"
  have s: "store_up world0 \<and> projects world0 = []" by (simp add: world0_def)
  have st: "map status (fst (serve world0 three_requests)) = [201, 500, 201]"
    by (simp add: eval_defs three_requests_def)
  have su: "store_up ?w" by (simp add: eval_defs three_requests_def)
  have o: "map createdAt (find_sorted (projects ?w)) = [1700000000460, 1700000000125]"
    by (simp add: eval_defs three_requests_def)
  have n: "length (filter (\<lambda>r. status r = 201) (fst (serve world0 three_requests))) = 2"
    by (simp add: eval_defs three_requests_def)
  note c6a = C6_list_returns_all_latest_first [where w = ?w and reqs = "[]"]
  note c6b = C6_list_returns_all_latest_first [where w = world0 and reqs = three_requests]
  from c6a su obtain ps where ps: "get_projects ?w = \<lparr>status = 200, body = Projects ps\<rparr>"
    "mset ps = mset (projects ?w)" "sorted_wrt (\<lambda>a b. createdAt b \<le> createdAt a) ps"
    by blast
  from c6b s obtain qs where qs: "get_projects ?w = \<lparr>status = 200, body = Projects qs\<rparr>"
    "length qs = length (filter (\<lambda>r. status r = 201) (fst (serve world0 three_requests)))"
    by blast
  have "qs = ps" using ps(1) qs(1) by simp
  then have "length ps = 2" using qs(2) n by simp
  then show ?thesis using s st ps o by blast
qed

subsection \<open>Failures inside the handler\<close>










subsection \<open>Generated file names\<close>

text \<open>
  C8, as amended. An accepted upload is written into the directory \<^verbatim>\<open>uploads\<close>,
  which exists afterwards, under the name \<^verbatim>\<open>project-\<close>, the timestamp, a hyphen, the
  random number and the extension of the original name; every file stored under
  another name is kept. The names of two uploads are equal exactly when their
  timestamps, their random numbers and their extensions are equal, so a stored file
  is overwritten only by an upload that agrees with it in all three; the counterexample
  below is such a pair.
\<close>

theorem C8_generated_names:
  "(\<forall>rf w1. handleFileUpload w dr req = (Inr (Some rf), w1) \<longrightarrow>
        uploads_dir w1
      \<and> filename rf = ''project-'' @ show_nat (date_now_upload dr) @ ''-''
            @ show_nat (math_random dr) @ extname (originalname (part rf))
      \<and> disk w1 (filename rf) = Some (part rf)
      \<and> (\<forall>n. n \<noteq> filename rf \<longrightarrow> disk w1 n = disk w n))
   \<and> (storage_filename d1 f1 = storage_filename d2 f2 \<longleftrightarrow>
        date_now_upload d1 = date_now_upload d2 \<and> math_random d1 = math_random d2
        \<and> extname (originalname f1) = extname (originalname f2))"
proof (intro conjI allI impI)
  fix rf w1 n
  assume h: "handleFileUpload w dr req = (Inr (Some rf), w1)"
  show "uploads_dir w1" using upload_writes(1) [OF h] .
  show "filename rf = ''project-'' @ show_nat (date_now_upload dr) @ ''-''
            @ show_nat (math_random dr) @ extname (originalname (part rf))"
    using upload_writes(2) [OF h] .
  show "disk w1 (filename rf) = Some (part rf)" using upload_writes(3) [OF h] .
  assume "n \<noteq> filename rf"
  then show "disk w1 n = disk w n" using upload_writes(4) [OF h] by simp
next
  show "storage_filename d1 f1 = storage_filename d2 f2 \<longleftrightarrow>
        date_now_upload d1 = date_now_upload d2 \<and> math_random d1 = math_random d2
        \<and> extname (originalname f1) = extname (originalname f2)"
    by (rule storage_filename_inj)
qed

theorem C8_witness:
  "handleFileUpload world0 draw0 (multipart_request (Some png_file) (Json fields_A)) =
       (Inr (Some \<lparr>part = png_file, filename = ''project-1700000000123-123456789.png''\<rparr>),
        world0\<lparr>uploads_dir := True,
               disk := [''project-1700000000123-123456789.png'' \<mapsto> png_file]\<rparr>)
   \<and> filename \<lparr>part = png_file, filename = ''project-1700000000123-123456789.png''\<rparr> =
       ''project-'' @ show_nat (date_now_upload draw0) @ ''-'' @ show_nat (math_random draw0)
         @ extname (originalname png_file)
   \<and> math_random draw0 \<noteq> math_random draw1
   \<and> storage_filename draw0 png_file \<noteq> storage_filename draw1 png_file"
proof -
  let ?r = "multipart_request (Some png_file) (Json fields_A)"
  let ?rf = "\<lparr>part = png_file, filename = ''project-1700000000123-123456789.png''\<rparr>"
  let ?w1 = "world0\<lparr>uploads_dir := True,
               disk := [''project-1700000000123-123456789.png'' \<mapsto> png_file]\<rparr>"
  have u: "handleFileUpload world0 draw0 ?r = (Inr (Some ?rf), ?w1)" by (simp add: eval_defs)
  have d: "math_random draw0 \<noteq> math_random draw1" by (simp add: draw0_def draw1_def)
  note c8 = C8_generated_names [where w = world0 and dr = draw0 and req = ?r
      and ?d1.0 = draw0 and ?d2.0 = draw1 and ?f1.0 = png_file and ?f2.0 = png_file]
  from c8 u have "filename ?rf = ''project-'' @ show_nat (date_now_upload draw0) @ ''-''
            @ show_nat (math_random draw0) @ extname (originalname (part ?rf))"
    by blast
  then have n: "filename ?rf = ''project-'' @ show_nat (date_now_upload draw0) @ ''-''
            @ show_nat (math_random draw0) @ extname (originalname png_file)"
    by (simp only: req_file.simps)
  from c8 d have ne: "storage_filename draw0 png_file \<noteq> storage_filename draw1 png_file"
    by blast
  show ?thesis using u n d ne by blast
qed

theorem C8_counterexample:
  "png_file \<noteq> other_png
   \<and> storage_filename draw0 png_file = storage_filename draw0 other_png
   \<and> disk (snd (handleFileUpload world0 draw0 (multipart_request (Some png_file) (Json fields_A))))
        ''project-1700000000123-123456789.png'' = Some png_file
   \<and> disk (snd (handleFileUpload
              (snd (handleFileUpload world0 draw0 (multipart_request (Some png_file) (Json fields_A))))
              draw0 (multipart_request (Some other_png) (Json fields_A))))
        ''project-1700000000123-123456789.png'' = Some other_png"
  by (simp add: eval_defs)

subsection \<open>The stored cover path\<close>

lemma get_prop_put_field: "k' \<noteq> k \<Longrightarrow> get_prop (put_field k v fd) k' = get_prop fd k'"
  by (cases fd) (simp_all add: put_field_def)

lemma strict_json_put_field: "strict_json (put_field k v fd) = strict_json fd"
  by (cases fd) (simp_all add: put_field_def)

lemma new_Project_put_field:
  "new_Project dr (put_field ''coverImagePath'' v fd) url path = new_Project dr fd url path"
  by (simp add: new_Project_def get_prop_put_field)

lemma put_simps:
  "is_multipart (put_in_request k v req) = is_multipart req"
  "content_type (put_in_request k v req) = content_type req"
  "cover_image (put_in_request k v req) = cover_image req"
  "cover_url (put_in_request k v req) up = cover_url req up"
  "json_body (put_in_request k v req) =
     (case json_body req of JsonText fd \<Rightarrow> JsonText (put_field k v fd) | b \<Rightarrow> b)"
  "data (put_in_request k v req) =
     (case data req of Json fd \<Rightarrow> Json (put_field k v fd) | d \<Rightarrow> d)"
  by (simp_all add: put_in_request_def is_multipart_def cover_url_def cover_image_def data_def
        split: multipart_body.splits data_field.splits option.splits)

lemma upload_put: "upload w dr (put_in_request k v req) = upload w dr req"
  by (simp add: upload_def put_in_request_def split: multipart_body.splits data_field.splits)

lemma upload_step_put: "upload_step w dr (put_in_request k v req) = upload_step w dr req"
  by (simp add: upload_step_def handleFileUpload_def upload_put put_simps)

lemma express_json_put:
  "express_json (put_in_request k v req) = express_json req
   \<or> (\<exists>b. express_json req = Inr b
          \<and> express_json (put_in_request k v req) = Inr (put_field k v b))"
  by (cases "json_body req") (simp_all add: express_json_def put_simps strict_json_put_field)

lemma picked_url_put:
  "bindE (get_prop (put_field ''coverImagePath'' v fd) ''coverImageUrl'') g
     = bindE (get_prop fd ''coverImageUrl'') g"
  by (simp add: get_prop_put_field)

lemma create_project_put:
  "\<not> is_multipart req \<Longrightarrow>
   create_project w dr (put_in_request ''coverImagePath'' v req)
       (put_field ''coverImagePath'' v b) url path
     = create_project w dr req b url path"
  by (simp add: create_project_def put_simps new_Project_put_field picked_url_put bindE_simps)

lemma create_project_put_other:
  "\<not> is_multipart req \<Longrightarrow>
   create_project w dr (put_in_request ''coverImagePath'' v req) b url path
     = create_project w dr req b url path"
  by (simp add: create_project_def put_simps)

lemma create_project_put_multipart:
  "is_multipart req \<Longrightarrow>
   create_project w dr (put_in_request ''coverImagePath'' v req) b url path
     = create_project w dr req b url path"
  by (cases "data req")
     (simp_all add: create_project_def put_simps new_Project_put_field picked_url_put bindE_simps)

lemma create_handler_cong:
  assumes "\<And>w1 url path. create_project w1 dr req' b' url path = create_project w1 dr req b url path"
    and "upload_step w dr req' = upload_step w dr req"
    and "\<And>up. cover_url req' up = cover_url req up"
  shows "create_handler w dr req' b' = create_handler w dr req b"
  by (simp add: create_handler_def assms split: prod.splits sum.splits)

lemma post_create_put:
  "post_create w dr (put_in_request ''coverImagePath'' v req) = post_create w dr req"
proof (cases "is_multipart req")
  case True
  then have m: "is_multipart (put_in_request ''coverImagePath'' v req)" by (simp add: put_simps)
  have "create_handler w dr (put_in_request ''coverImagePath'' v req) (Obj [])
          = create_handler w dr req (Obj [])"
    by (rule create_handler_cong)
       (simp_all add: True create_project_put_multipart upload_step_put put_simps)
  then show ?thesis using True m
    by (simp add: post_create_def express_json_multipart)
next
  case nm: False
  from express_json_put [of "''coverImagePath''" v req] show ?thesis
  proof
    assume e: "express_json (put_in_request ''coverImagePath'' v req) = express_json req"
    show ?thesis
    proof (cases "express_json req")
      case (Inl st)
      then show ?thesis using e by (simp add: post_create_def)
    next
      case (Inr b)
      have "create_handler w dr (put_in_request ''coverImagePath'' v req) b
              = create_handler w dr req b"
        by (rule create_handler_cong)
           (simp_all add: nm create_project_put_other upload_step_put put_simps)
      then show ?thesis using Inr e by (simp add: post_create_def)
    qed
  next
    assume "\<exists>b. express_json req = Inr b
          \<and> express_json (put_in_request ''coverImagePath'' v req)
              = Inr (put_field ''coverImagePath'' v b)"
    then obtain b where b: "express_json req = Inr b"
      and e: "express_json (put_in_request ''coverImagePath'' v req)
              = Inr (put_field ''coverImagePath'' v b)"
      by blast
    have "create_handler w dr (put_in_request ''coverImagePath'' v req)
            (put_field ''coverImagePath'' v b) = create_handler w dr req b"
      by (rule create_handler_cong)
         (simp_all add: nm create_project_put upload_step_put put_simps)
    then show ?thesis using b e by (simp add: post_create_def)
  qed
qed

lemma created_cover_path:
  assumes "post_create w dr req = (r, w')" and "status r = 201"
  shows "\<exists>p. body r = Created ''Project created successfully'' p
    \<and> projects w' = projects w @ [p]
    \<and> (\<not> is_multipart req \<longrightarrow> coverImagePath p = Some [])
    \<and> (cover_image req = None \<longrightarrow> coverImagePath p = Some [])
    \<and> (\<forall>f. is_multipart req \<and> cover_image req = Some f \<longrightarrow>
           coverImagePath p = Some (''/uploads/'' @ storage_filename dr f)
         \<and> disk w' (storage_filename dr f) = Some f)
    \<and> (coverImagePath p = Some []
        \<or> (\<exists>f. is_multipart req \<and> cover_image req = Some f
               \<and> disk w' (storage_filename dr f) = Some f
               \<and> coverImagePath p = Some (''/uploads/'' @ storage_filename dr f)))"
proof -
  from assms obtain p up w1 url' where
      r: "r = \<lparr>status = 201, body = Created ''Project created successfully'' p\<rparr>"
    and us: "upload_step w dr req = (Inr up, w1)"
    and w': "w' = w1\<lparr>projects := projects w1 @ [p]\<rparr>"
    and np: "new_Project dr (form_fields req) url' (cover_path up) = Inr p"
    by (elim post_create_created)
  have pw: "projects w1 = projects w"
    using upload_step_keeps_store(1) [of w dr req] us by simp
  have cp: "coverImagePath p = Some (cover_path up)" using new_Project_Inr(3) [OF np] .
  have nm: "coverImagePath p = Some []" if "\<not> is_multipart req"
    using that us cp by (simp add: upload_step_def cover_path_def)
  have nf: "coverImagePath p = Some []" if n: "cover_image req = None"
  proof (cases "is_multipart req")
    case True
    then have "upload w dr req = (Inr up, w1)"
      using us by (simp add: upload_step_def handleFileUpload_def)
    then have "up = None" using upload_no_cover_image [OF n, of w dr] by (cases up) auto
    then show ?thesis using cp by (simp add: cover_path_def)
  next
    case False
    then show ?thesis by (rule nm)
  qed
  have fl: "coverImagePath p = Some (''/uploads/'' @ storage_filename dr f)
         \<and> disk w' (storage_filename dr f) = Some f"
    if m: "is_multipart req" and c: "cover_image req = Some f" for f
  proof -
    have u: "upload_part w dr f = (Inr up, w1)"
      using us m upload_cover_image [OF c, of w dr]
      by (simp add: upload_step_def handleFileUpload_def)
    then obtain rf where up: "up = Some rf"
      using upload_part_cases [of w dr f] by (cases up) (auto split: if_splits)
    have h: "handleFileUpload w dr req = (Inr (Some rf), w1)"
      using us m up by (simp add: upload_step_def)
    have "filename rf = storage_filename dr f" "disk w1 (filename rf) = Some f"
      using upload_stored(1,2,3) [OF h] c by simp_all
    then show ?thesis using cp up w' by (simp add: cover_path_def)
  qed
  have 1: "body r = Created ''Project created successfully'' p" using r by simp
  have 2: "projects w' = projects w @ [p]" using w' pw by simp
  have 3: "\<not> is_multipart req \<longrightarrow> coverImagePath p = Some []" using nm by blast
  have 4: "cover_image req = None \<longrightarrow> coverImagePath p = Some []" using nf by blast
  have 5: "\<forall>f. is_multipart req \<and> cover_image req = Some f \<longrightarrow>
           coverImagePath p = Some (''/uploads/'' @ storage_filename dr f)
         \<and> disk w' (storage_filename dr f) = Some f"
    using fl by blast
  have 6: "coverImagePath p = Some []
        \<or> (\<exists>f. is_multipart req \<and> cover_image req = Some f
               \<and> disk w' (storage_filename dr f) = Some f
               \<and> coverImagePath p = Some (''/uploads/'' @ storage_filename dr f))"
  proof (cases "is_multipart req")
    case True
    show ?thesis
    proof (cases "cover_image req")
      case None
      then show ?thesis using nf by simp
    next
      case (Some f)
      then show ?thesis using fl [OF True Some] True by blast
    qed
  next
    case False
    then show ?thesis using nm by simp
  qed
  from 1 2 3 4 5 6 show ?thesis by (intro exI [of _ p] conjI)
qed

text \<open>
  C9. A \<^verbatim>\<open>coverImagePath\<close> field sent by the client changes nothing: the request
  with the field set to any value has the same answer and the same effect. The
  \<^verbatim>\<open>coverImagePath\<close> of a created project is determined by the upload alone: it is
  the empty string for every request that is not multipart and for every request that
  carries no file, and for a multipart request that carries a file it is
  \<^verbatim>\<open>/uploads/\<close> followed by the generated name of that file, under which the file
  is stored.
\<close>

theorem C9_cover_path_server_derived:
  "post_create w dr (put_in_request ''coverImagePath'' v req) = post_create w dr req
   \<and> (\<forall>r w'. post_create w dr req = (r, w') \<and> status r = 201 \<longrightarrow>
        (\<exists>p. body r = Created ''Project created successfully'' p
           \<and> projects w' = projects w @ [p]
           \<and> (\<not> is_multipart req \<longrightarrow> coverImagePath p = Some [])
           \<and> (cover_image req = None \<longrightarrow> coverImagePath p = Some [])
           \<and> (\<forall>f. is_multipart req \<and> cover_image req = Some f \<longrightarrow>
                  coverImagePath p = Some (''/uploads/'' @ storage_filename dr f)
                \<and> disk w' (storage_filename dr f) = Some f)
           \<and> (coverImagePath p = Some []
               \<or> (\<exists>f. is_multipart req \<and> cover_image req = Some f
                      \<and> disk w' (storage_filename dr f) = Some f
                      \<and> coverImagePath p = Some (''/uploads/'' @ storage_filename dr f)))))"
proof (intro conjI allI impI)
  show "post_create w dr (put_in_request ''coverImagePath'' v req) = post_create w dr req"
    by (rule post_create_put)
next
  fix r w'
  assume a: "post_create w dr req = (r, w') \<and> status r = 201"
  then have a1: "post_create w dr req = (r, w')" and a2: "status r = 201" by simp_all
  show "\<exists>p. body r = Created ''Project created successfully'' p
           \<and> projects w' = projects w @ [p]
           \<and> (\<not> is_multipart req \<longrightarrow> coverImagePath p = Some [])
           \<and> (cover_image req = None \<longrightarrow> coverImagePath p = Some [])
           \<and> (\<forall>f. is_multipart req \<and> cover_image req = Some f \<longrightarrow>
                  coverImagePath p = Some (''/uploads/'' @ storage_filename dr f)
                \<and> disk w' (storage_filename dr f) = Some f)
           \<and> (coverImagePath p = Some []
               \<or> (\<exists>f. is_multipart req \<and> cover_image req = Some f
                      \<and> disk w' (storage_filename dr f) = Some f
                      \<and> coverImagePath p = Some (''/uploads/'' @ storage_filename dr f)))"
    using created_cover_path [OF a1 a2] .
qed

theorem C9_witness:
  "post_create world0 draw0
      (put_in_request ''coverImagePath'' (Str ''/etc/passwd'') (json_request (Some fields_A)))
     = post_create world0 draw0 (json_request (Some fields_A))
   \<and> status (fst (post_create world0 draw0 (json_request (Some fields_A)))) = 201
   \<and> \<not> is_multipart (json_request (Some fields_A))
   \<and> (\<exists>p. body (fst (post_create world0 draw0 (json_request (Some fields_A))))
             = Created ''Project created successfully'' p
          \<and> coverImagePath p = Some [])
   \<and> status (fst (post_create world0 draw0
        (put_in_request ''coverImagePath'' (Str ''/etc/passwd'')
           (multipart_request (Some png_file) (Json fields_A))))) = 201
   \<and> is_multipart (multipart_request (Some png_file) (Json fields_A))
   \<and> cover_image (multipart_request (Some png_file) (Json fields_A)) = Some png_file
   \<and> (\<exists>p. body (fst (post_create world0 draw0
              (put_in_request ''coverImagePath'' (Str ''/etc/passwd'')
                 (multipart_request (Some png_file) (Json fields_A)))))
             = Created ''Project created successfully'' p
          \<and> coverImagePath p = Some ''/uploads/project-1700000000123-123456789.png'')"
proof -
  let ?j = "json_request (Some fields_A)"
  let ?m = "multipart_request (Some png_file) (Json fields_A)"
  let ?pm = "put_in_request ''coverImagePath'' (Str ''/etc/passwd'') ?m"
  have s: "status (fst (post_create world0 draw0 ?j)) = 201" by (simp add: eval_defs)
  have m: "\<not> is_multipart ?j" by (simp add: eval_defs)
  have sm: "status (fst (post_create world0 draw0 ?m)) = 201" by (simp add: eval_defs)
  have mm: "is_multipart ?m" "cover_image ?m = Some png_file" by (simp_all add: eval_defs)
  have nm: "storage_filename draw0 png_file = ''project-1700000000123-123456789.png''"
    by (simp add: eval_defs)
  note c9 = C9_cover_path_server_derived [where w = world0 and dr = draw0
      and v = "Str ''/etc/passwd''" and req = ?j]
  note c9m = C9_cover_path_server_derived [where w = world0 and dr = draw0
      and v = "Str ''/etc/passwd''" and req = ?m]
  from c9 have eq:
    "post_create world0 draw0 (put_in_request ''coverImagePath'' (Str ''/etc/passwd'') ?j)
       = post_create world0 draw0 ?j"
    by (rule conjunct1)
  from c9m have eqm: "post_create world0 draw0 ?pm = post_create world0 draw0 ?m"
    by (rule conjunct1)
  have "post_create world0 draw0 ?j
          = (fst (post_create world0 draw0 ?j), snd (post_create world0 draw0 ?j))
        \<and> status (fst (post_create world0 draw0 ?j)) = 201"
    using s by simp
  with c9 obtain p where
    "body (fst (post_create world0 draw0 ?j)) = Created ''Project created successfully'' p"
    "\<not> is_multipart ?j \<longrightarrow> coverImagePath p = Some []"
    by blast
  then have ex: "\<exists>p. body (fst (post_create world0 draw0 ?j))
                      = Created ''Project created successfully'' p
                    \<and> coverImagePath p = Some []"
    using m by blast
  have "post_create world0 draw0 ?m
          = (fst (post_create world0 draw0 ?m), snd (post_create world0 draw0 ?m))
        \<and> status (fst (post_create world0 draw0 ?m)) = 201"
    using sm by simp
  with c9m obtain q where
    q: "body (fst (post_create world0 draw0 ?m)) = Created ''Project created successfully'' q"
    "\<forall>f. is_multipart ?m \<and> cover_image ?m = Some f \<longrightarrow>
        coverImagePath q = Some (''/uploads/'' @ storage_filename draw0 f)
      \<and> disk (snd (post_create world0 draw0 ?m)) (storage_filename draw0 f) = Some f"
    by blast
  from q(2) mm have "coverImagePath q = Some (''/uploads/'' @ storage_filename draw0 png_file)"
    by blast
  then have "coverImagePath q = Some ''/uploads/project-1700000000123-123456789.png''"
    unfolding nm by simp
  then have exm: "\<exists>p. body (fst (post_create world0 draw0 ?pm))
                      = Created ''Project created successfully'' p
                    \<and> coverImagePath p = Some ''/uploads/project-1700000000123-123456789.png''"
    using q(1) eqm by auto
  have spm: "status (fst (post_create world0 draw0 ?pm)) = 201" using sm eqm by simp
  show ?thesis using s m eq ex spm mm exm by blast
qed

subsection \<open>A failed create after a stored upload\<close>

text \<open>
  C10. A multipart create request whose file is accepted and written, and whose
  \<^verbatim>\<open>data\<close> field is absent or is not valid JSON, is answered with status 500 and the
  fixed error body; no project is added to the collection, and the file written by the
  upload is still on disk afterwards.
\<close>

theorem C10_failed_create_keeps_file:
  assumes "is_multipart req"
    and "handleFileUpload w dr req = (Inr (Some rf), w1)"
    and "data req = NoField \<or> data req = NotJson"
  shows "post_create w dr req =
           (\<lparr>status = 500, body = ErrorJson ''Internal server error''\<rparr>, w1)
       \<and> projects w1 = projects w
       \<and> disk w1 (filename rf) = Some (part rf)
       \<and> cover_image req = Some (part rf)"
proof -
  have "create_project w1 dr req (Obj []) (cover_url req (Some rf)) (cover_path (Some rf))
          = Inl SyntaxError"
    using assms(1,3) by (auto simp: create_project_def bindE_def)
  then have "post_create w dr req =
      (\<lparr>status = 500, body = ErrorJson ''Internal server error''\<rparr>, w1)"
    using assms(1,2)
    by (simp add: post_create_def express_json_multipart create_handler_def upload_step_def)
  moreover have "projects w1 = projects w"
    using upload_keeps_store(1) [of w dr req] assms(2) by (simp add: handleFileUpload_def)
  ultimately show ?thesis using upload_stored [OF assms(2)] by simp
qed

theorem C10_witness:
  "is_multipart (multipart_request (Some png_file) NotJson)
   \<and> handleFileUpload world0 draw0 (multipart_request (Some png_file) NotJson) =
       (Inr (Some \<lparr>part = png_file, filename = ''project-1700000000123-123456789.png''\<rparr>),
        world0\<lparr>uploads_dir := True,
               disk := [''project-1700000000123-123456789.png'' \<mapsto> png_file]\<rparr>)
   \<and> fst (post_create world0 draw0 (multipart_request (Some png_file) NotJson)) =
       \<lparr>status = 500, body = ErrorJson ''Internal server error''\<rparr>
   \<and> projects (snd (post_create world0 draw0 (multipart_request (Some png_file) NotJson))) = []
   \<and> disk (snd (post_create world0 draw0 (multipart_request (Some png_file) NotJson)))
        ''project-1700000000123-123456789.png'' = Some png_file"
proof -
  have m: "is_multipart (multipart_request (Some png_file) NotJson)"
    by (simp add: is_multipart_def multipart_request_def startsWith_def)
  have u: "handleFileUpload world0 draw0 (multipart_request (Some png_file) NotJson) =
       (Inr (Some \<lparr>part = png_file, filename = ''project-1700000000123-123456789.png''\<rparr>),
        world0\<lparr>uploads_dir := True,
               disk := [''project-1700000000123-123456789.png'' \<mapsto> png_file]\<rparr>)"
    by (simp add: eval_defs)
  have d: "data (multipart_request (Some png_file) NotJson) = NoField
         \<or> data (multipart_request (Some png_file) NotJson) = NotJson"
    by (simp add: multipart_request_def data_def)
  show ?thesis
    using C10_failed_create_keeps_file [OF m u d] m u by (simp add: world0_def)
qed

end
